theory Spec2Isabelle
  imports Complex_Main "HOL-Library.Sublist" "HOL-Library.Log_Nat"
begin

section \<open>JavaScript numbers\<close>

text \<open>
  The source computes with JavaScript numbers, IEEE 754 doubles. A number of the model is
  \<open>NaN\<close>, an infinity, or a finite value held as a rational; \<open>to_double\<close> rounds a
  rational to the nearest double, ties to the even significand, with gradual underflow
  down to \<open>2^-1074\<close> and overflow to an infinity from \<open>2^1024 - 2^970\<close> on.
  Multiplication, division and subtraction compute the exact result of their operands and
  round it, as the hardware does; so does the reading of decimal text. Negative zero is
  not told apart from zero.
\<close>

datatype number = NaN | PosInf | NegInf | Num rat

definition inf_of :: "rat \<Rightarrow> number" where
  \<comment> \<open>the infinity with the sign of \<open>s\<close>; \<open>NaN\<close> when \<open>s\<close> is zero\<close>
  "inf_of s = (if s = 0 then NaN else if 0 < s then PosInf else NegInf)"

definition floor_log2 :: "int \<Rightarrow> int \<Rightarrow> int" where
  \<comment> \<open>the binary exponent of \<open>p / q\<close> for positive \<open>p\<close> and \<open>q\<close>: the \<open>e\<close> with
      \<open>2^e \<le> p / q < 2^(e+1)\<close>, which is the difference of the bit lengths or one less\<close>
  "floor_log2 p q =
     (let d = bitlen p - bitlen q
      in if 0 \<le> d then (if q * 2 ^ nat d \<le> p then d else d - 1)
         else (if q \<le> p * 2 ^ nat (- d) then d else d - 1))"

definition round_half_even :: "int \<Rightarrow> int \<Rightarrow> int" where
  \<comment> \<open>the integer nearest to \<open>n / d\<close> for positive \<open>d\<close>, the even one of two equally near\<close>
  "round_half_even n d =
     (let f = n div d; r = 2 * (n mod d)
      in if r < d then f else if d < r then f + 1
         else if even f then f else f + 1)"

definition to_double :: "rat \<Rightarrow> number" where
  \<comment> \<open>round to the nearest double: 53 significant bits, with the unit in the last place
      \<open>2^k\<close> never below \<open>2^-1074\<close>; a result of \<open>2^1024\<close> or more is an infinity\<close>
  "to_double x =
     (if x = 0 then Num 0
      else
        (let (p, q) = quotient_of \<bar>x\<bar>;
             e = floor_log2 p q;
             inf = (if x < 0 then NegInf else PosInf)
         in if 1024 \<le> e then inf
            else
              (let k = max (e - 52) (- 1074);
                   m = (if 0 \<le> k then round_half_even p (q * 2 ^ nat k)
                        else round_half_even (p * 2 ^ nat (- k)) q);
                   v = (if 0 \<le> k then of_int (m * 2 ^ nat k)
                        else of_int m / of_int (2 ^ nat (- k)))
               in if e = 1023 \<and> 9007199254740992 \<le> m then inf
                  else Num (if x < 0 then - v else v))))"

fun js_mul :: "number \<Rightarrow> number \<Rightarrow> number" where
  "js_mul NaN _ = NaN"
| "js_mul _ NaN = NaN"
| "js_mul (Num a) (Num b) = to_double (a * b)"
| "js_mul PosInf (Num b) = inf_of b"
| "js_mul NegInf (Num b) = inf_of (- b)"
| "js_mul (Num a) PosInf = inf_of a"
| "js_mul (Num a) NegInf = inf_of (- a)"
| "js_mul PosInf PosInf = PosInf"
| "js_mul PosInf NegInf = NegInf"
| "js_mul NegInf PosInf = NegInf"
| "js_mul NegInf NegInf = PosInf"

fun js_div :: "number \<Rightarrow> number \<Rightarrow> number" where
  "js_div NaN _ = NaN"
| "js_div _ NaN = NaN"
| "js_div (Num a) (Num b) = (if b = 0 then inf_of a else to_double (a / b))"
| "js_div PosInf (Num b) = (if 0 \<le> b then PosInf else NegInf)"
| "js_div NegInf (Num b) = (if 0 \<le> b then NegInf else PosInf)"
| "js_div (Num a) _ = Num 0"
| "js_div _ _ = NaN"

fun js_sub :: "number \<Rightarrow> number \<Rightarrow> number" where
  "js_sub NaN _ = NaN"
| "js_sub _ NaN = NaN"
| "js_sub (Num a) (Num b) = to_double (a - b)"
| "js_sub PosInf PosInf = NaN"
| "js_sub NegInf NegInf = NaN"
| "js_sub PosInf _ = PosInf"
| "js_sub NegInf _ = NegInf"
| "js_sub _ PosInf = NegInf"
| "js_sub _ NegInf = PosInf"

fun Math_max :: "number \<Rightarrow> number \<Rightarrow> number" where
  "Math_max NaN _ = NaN"
| "Math_max _ NaN = NaN"
| "Math_max PosInf _ = PosInf"
| "Math_max _ PosInf = PosInf"
| "Math_max NegInf y = y"
| "Math_max x NegInf = x"
| "Math_max (Num a) (Num b) = Num (max a b)"

fun Math_min :: "number \<Rightarrow> number \<Rightarrow> number" where
  "Math_min NaN _ = NaN"
| "Math_min _ NaN = NaN"
| "Math_min NegInf _ = NegInf"
| "Math_min _ NegInf = NegInf"
| "Math_min PosInf y = y"
| "Math_min x PosInf = x"
| "Math_min (Num a) (Num b) = Num (min a b)"

fun Math_floor :: "number \<Rightarrow> number" where
  "Math_floor (Num a) = Num (of_int \<lfloor>a\<rfloor>)"
| "Math_floor x = x"

definition strict_neq :: "number \<Rightarrow> number \<Rightarrow> bool" where
  \<comment> \<open>\<open>x !== y\<close> on numbers: \<open>NaN\<close> differs from everything, itself included\<close>
  "strict_neq x y = (x = NaN \<or> y = NaN \<or> x \<noteq> y)"

fun js_ge :: "number \<Rightarrow> number \<Rightarrow> bool" where
  \<comment> \<open>\<open>x >= y\<close> on numbers: false as soon as one side is \<open>NaN\<close>\<close>
  "js_ge NaN _ = False"
| "js_ge _ NaN = False"
| "js_ge PosInf _ = True"
| "js_ge _ NegInf = True"
| "js_ge NegInf _ = False"
| "js_ge _ PosInf = False"
| "js_ge (Num a) (Num b) = (b \<le> a)"

definition is_nonneg_integer :: "number \<Rightarrow> bool" where
  "is_nonneg_integer x = (case x of Num a \<Rightarrow> 0 \<le> a \<and> of_int \<lfloor>a\<rfloor> = a | _ \<Rightarrow> False)"

section \<open>The funding-time calculator\<close>

text \<open>
  \<open>new Date()\<close> reads the clock; the model takes the instant as epoch milliseconds.
  The UTC getters of a valid date are floor division and remainder on that time value.
\<close>

definition getUTCHours :: "int \<Rightarrow> int" where
  "getUTCHours t = (t div 3600000) mod 24"

definition getUTCMinutes :: "int \<Rightarrow> int" where
  "getUTCMinutes t = (t div 60000) mod 60"

definition getUTCSeconds :: "int \<Rightarrow> int" where
  "getUTCSeconds t = (t div 1000) mod 60"

definition nextFundingHours :: "int list" where
  "nextFundingHours = [0, 8, 16]"

definition calculateTimeToNextFunding :: "int \<Rightarrow> number" where
  "calculateTimeToNextFunding now =
     (let currentHour = getUTCHours now;
          currentMinute = getUTCMinutes now;
          currentSecond = getUTCSeconds now;
          nextHour = (case find (\<lambda>h. h > currentHour) nextFundingHours of
                        Some h \<Rightarrow> h | None \<Rightarrow> 24);
          hoursUntil = (if nextHour = 24 then 24 - currentHour else nextHour - currentHour);
          timeToNext = hoursUntil * 3600 - (currentMinute * 60 + currentSecond)
      in Math_max (Num 0) (Math_floor (Num (of_int timeToNext))))"

section \<open>Strings\<close>

fun replace :: "string \<Rightarrow> string \<Rightarrow> string \<Rightarrow> string" where
  \<comment> \<open>\<open>s.replace(pat, rep)\<close> with a string pattern: the first occurrence only\<close>
  "replace [] pat rep = (if pat = [] then rep else [])"
| "replace (c # cs) pat rep =
     (if prefix pat (c # cs) then rep @ drop (length pat) (c # cs)
      else c # replace cs pat rep)"

fun split :: "string \<Rightarrow> char \<Rightarrow> string list" where
  \<comment> \<open>\<open>s.split(sep)\<close> for a one-character separator\<close>
  "split [] sep = [[]]"
| "split (c # cs) sep =
     (if c = sep then [] # split cs sep
      else (case split cs sep of p # ps \<Rightarrow> (c # p) # ps | [] \<Rightarrow> [[c]]))"

fun join :: "string list \<Rightarrow> string \<Rightarrow> string" where
  \<comment> \<open>\<open>xs.join(sep)\<close> on an array of strings\<close>
  "join [] sep = []"
| "join [x] sep = x"
| "join (x # y # ys) sep = x @ sep @ join (y # ys) sep"

definition is_ws :: "char \<Rightarrow> bool" where
  \<comment> \<open>the ASCII white space that \<open>parseInt\<close> and \<open>parseFloat\<close> skip\<close>
  "is_ws c = (c \<in> set [CHR '' '', CHR 0x09, CHR 0x0A, CHR 0x0B, CHR 0x0C, CHR 0x0D])"

definition is_digit :: "char \<Rightarrow> bool" where
  "is_digit c = (c \<in> set ''0123456789'')"

definition digit_val :: "char \<Rightarrow> int" where
  "digit_val c = of_char c - 48"

definition digits_val :: "string \<Rightarrow> int" where
  "digits_val ds = foldl (\<lambda>acc d. 10 * acc + digit_val d) 0 ds"

definition take_sign :: "string \<Rightarrow> bool \<times> string" where
  \<comment> \<open>an optional leading sign: (is it negative, the rest)\<close>
  "take_sign s =
     (case s of
        c # r \<Rightarrow> if c = CHR ''-'' then (True, r) else if c = CHR ''+'' then (False, r)
                 else (False, s)
      | [] \<Rightarrow> (False, []))"

definition parseInt_str :: "string \<Rightarrow> number" where
  \<comment> \<open>\<open>parseInt(s, 10)\<close>: the longest prefix that is a signed run of digits\<close>
  "parseInt_str s =
     (let (neg, u) = take_sign (dropWhile is_ws s);
          ds = takeWhile is_digit u
      in if ds = [] then NaN
         else to_double (of_int ((if neg then - 1 else 1) * digits_val ds)))"

definition scale10 :: "rat \<Rightarrow> int \<Rightarrow> rat" where
  "scale10 x e =
     (if 0 \<le> e then x * of_int (10 ^ nat e) else x / of_int (10 ^ nat (- e)))"

definition exponent_part :: "string \<Rightarrow> int" where
  \<comment> \<open>the value of an exponent part \<open>e[+-]digits\<close> at the head of the text, 0 without one\<close>
  "exponent_part s =
     (case s of
        c # r \<Rightarrow>
          if c = CHR ''e'' \<or> c = CHR ''E'' then
            (let (eneg, r') = take_sign r; eds = takeWhile is_digit r'
             in if eds = [] then 0 else (if eneg then - 1 else 1) * digits_val eds)
          else 0
      | [] \<Rightarrow> 0)"

definition parseFloat_str :: "string \<Rightarrow> number" where
  \<comment> \<open>\<open>parseFloat(s)\<close>: the longest prefix that is a decimal literal or \<open>Infinity\<close>\<close>
  "parseFloat_str s =
     (let (neg, u) = take_sign (dropWhile is_ws s)
      in if prefix ''Infinity'' u then (if neg then NegInf else PosInf)
         else
           (let ip = takeWhile is_digit u;
                r1 = dropWhile is_digit u;
                (fp, r2) = (case r1 of
                              c # r \<Rightarrow> if c = CHR ''.''
                                       then (takeWhile is_digit r, dropWhile is_digit r)
                                       else ([], r1)
                            | [] \<Rightarrow> ([], []))
            in if ip = [] \<and> fp = [] then NaN
               else
                 (let mant = of_int (digits_val ip) +
                             of_int (digits_val fp) / of_int (10 ^ length fp)
                  in to_double (scale10 ((if neg then - 1 else 1) * mant) (exponent_part r2)))))"

fun string_of_nat :: "nat \<Rightarrow> string" where
  "string_of_nat n =
     (if n < 10 then [''0123456789'' ! n]
      else string_of_nat (n div 10) @ [''0123456789'' ! (n mod 10)])"

definition array_index :: "string \<Rightarrow> nat option" where
  \<comment> \<open>a property name that is a canonical array index: digits with no leading zero\<close>
  "array_index k =
     (if k \<noteq> [] \<and> list_all is_digit k \<and> (k = ''0'' \<or> hd k \<noteq> CHR ''0'')
      then Some (nat (digits_val k)) else None)"

section \<open>JSON values and property access\<close>

text \<open>
  What \<open>response.json()\<close> yields, together with \<open>undefined\<close>, which reading an
  absent property yields. An object is the list of its properties; a name bound twice
  reads as its first binding. A number is held by the value of the double it was read
  to. Strings are counted in characters of the model.
\<close>

datatype jsval =
    JUndefined
  | JNull
  | JBool bool
  | JNum rat
  | JStr string
  | JArr "jsval list"
  | JObj "(string \<times> jsval) list"

datatype exn = TypeError | FetchError | SyntaxError | Error string

fun truthy :: "jsval \<Rightarrow> bool" where
  "truthy JUndefined = False"
| "truthy JNull = False"
| "truthy (JBool b) = b"
| "truthy (JNum r) = (r \<noteq> 0)"
| "truthy (JStr s) = (s \<noteq> [])"
| "truthy (JArr _) = True"
| "truthy (JObj _) = True"

definition js_or :: "jsval \<Rightarrow> jsval \<Rightarrow> jsval" where
  \<comment> \<open>\<open>a || b\<close>\<close>
  "js_or a b = (if truthy a then a else b)"

fun get_prop :: "jsval \<Rightarrow> string \<Rightarrow> exn + jsval" where
  \<comment> \<open>\<open>v[k]\<close> for data properties; reading a property of \<open>null\<close> or \<open>undefined\<close>
      throws. Inherited methods are not data and are not modelled here.\<close>
  "get_prop JUndefined k = Inl TypeError"
| "get_prop JNull k = Inl TypeError"
| "get_prop (JObj kvs) k = Inr (case map_of kvs k of Some v \<Rightarrow> v | None \<Rightarrow> JUndefined)"
| "get_prop (JArr xs) k =
     Inr (if k = ''length'' then JNum (of_nat (length xs))
          else (case array_index k of
                  Some i \<Rightarrow> if i < length xs then xs ! i else JUndefined
                | None \<Rightarrow> JUndefined))"
| "get_prop (JStr s) k =
     Inr (if k = ''length'' then JNum (of_nat (length s))
          else (case array_index k of
                  Some i \<Rightarrow> if i < length s then JStr [s ! i] else JUndefined
                | None \<Rightarrow> JUndefined))"
| "get_prop (JBool _) k = Inr JUndefined"
| "get_prop (JNum _) k = Inr JUndefined"

definition get_index :: "jsval \<Rightarrow> nat \<Rightarrow> exn + jsval" where
  \<comment> \<open>\<open>v[i]\<close> for a numeric literal \<open>i\<close>\<close>
  "get_index v i = get_prop v (string_of_nat i)"

definition opt_get :: "jsval \<Rightarrow> string \<Rightarrow> exn + jsval" where
  \<comment> \<open>\<open>v?.k\<close>\<close>
  "opt_get v k = (case v of JUndefined \<Rightarrow> Inr JUndefined | JNull \<Rightarrow> Inr JUndefined
                  | _ \<Rightarrow> get_prop v k)"

fun leading_digit :: "nat \<Rightarrow> nat" where
  "leading_digit n = (if n < 10 then n else leading_digit (n div 10))"

fun digit_count :: "nat \<Rightarrow> nat" where
  "digit_count n = (if n < 10 then 1 else Suc (digit_count (n div 10)))"

definition leading_digit_small :: "rat \<Rightarrow> nat" where
  \<comment> \<open>the first significant decimal digit of \<open>0 < r < 1\<close>\<close>
  "leading_digit_small r =
     (let k = digit_count (nat \<lfloor>1 / r\<rfloor>); d = nat \<lfloor>r * 10 ^ k\<rfloor>
      in if 10 \<le> d then 1 else d)"

definition parseInt_num :: "rat \<Rightarrow> number" where
  \<comment> \<open>\<open>parseInt\<close> of a number reads the number's text: plain decimal notation from
      \<open>10^-6\<close> up to \<open>10^21\<close> (the integer part survives), exponent notation outside
      (only the leading digit survives)\<close>
  "parseInt_num r =
     (let a = \<bar>r\<bar>; sg = (if r < 0 then - 1 else 1) in
      if r = 0 then Num 0
      else if 1 / 10 ^ 6 \<le> a \<and> a < 10 ^ 21 then Num (of_int (sg * \<lfloor>a\<rfloor>))
      else if 10 ^ 21 \<le> a then Num (of_int (sg * int (leading_digit (nat \<lfloor>a\<rfloor>))))
      else Num (of_int (sg * int (leading_digit_small a))))"

fun parseFloat :: "jsval \<Rightarrow> number" where
  \<comment> \<open>\<open>parseFloat(v)\<close> reads the text of \<open>v\<close>: a number's text reads back as the number,
      an array's text starts with the text of its first element (empty for \<open>null\<close>),
      and \<open>true\<close>, \<open>null\<close>, \<open>undefined\<close>, \<open>[object Object]\<close> are not numbers\<close>
  "parseFloat (JStr s) = parseFloat_str s"
| "parseFloat (JNum r) = to_double r"
| "parseFloat (JArr (x # xs)) = parseFloat x"
| "parseFloat _ = NaN"

fun parseInt :: "jsval \<Rightarrow> number" where
  \<comment> \<open>\<open>parseInt(v, 10)\<close>, on the text of \<open>v\<close> as for \<open>parseFloat\<close>\<close>
  "parseInt (JStr s) = parseInt_str s"
| "parseInt (JNum r) = parseInt_num r"
| "parseInt (JArr (x # xs)) = parseInt x"
| "parseInt _ = NaN"

section \<open>Effects: network requests and exceptions\<close>

text \<open>
  An asynchronous computation of the source is modelled by what it leaves behind: the
  list of network requests it sent, and either the exception it threw or its value.
  The network and the clock are the \<open>world\<close> a request runs in: what each request is
  answered with, and the instant, as epoch milliseconds, that \<open>Date\<close> reads. One
  instant stands for every clock reading made while a request is served, and a request
  sent twice is answered the same way twice. A request is its method, its URL and, for
  a POST, its body; the headers are left out.
\<close>

datatype request = GET string | POST string string

datatype response = Response (ok: bool) (body: "jsval option")
  \<comment> \<open>the status flag, and the body as JSON (\<open>None\<close>: the body is not JSON)\<close>

datatype outcome = Failed | Answered response
  \<comment> \<open>a transport error, or a response\<close>

record world =
  http :: "request \<Rightarrow> outcome"
  clock :: int

type_synonym 'a io = "request list \<times> (exn + 'a)"

definition io_return :: "'a \<Rightarrow> 'a io" where
  "io_return x = ([], Inr x)"

definition io_throw :: "exn \<Rightarrow> 'a io" where
  "io_throw e = ([], Inl e)"

definition io_bind :: "'a io \<Rightarrow> ('a \<Rightarrow> 'b io) \<Rightarrow> 'b io" where
  "io_bind m f =
     (case m of
        (l, Inl e) \<Rightarrow> (l, Inl e)
      | (l, Inr x) \<Rightarrow> (case f x of (l', r) \<Rightarrow> (l @ l', r)))"

definition io_lift :: "exn + 'a \<Rightarrow> 'a io" where
  "io_lift r = ([], r)"

definition io_catch :: "'a io \<Rightarrow> (exn \<Rightarrow> 'a io) \<Rightarrow> 'a io" where
  \<comment> \<open>\<open>try { m } catch (error) { h(error) }\<close>\<close>
  "io_catch m h =
     (case m of
        (l, Inl e) \<Rightarrow> (case h e of (l', r) \<Rightarrow> (l @ l', r))
      | (l, Inr x) \<Rightarrow> (l, Inr x))"

definition fetch :: "world \<Rightarrow> request \<Rightarrow> response io" where
  \<comment> \<open>\<open>await fetch(...)\<close>: the request is sent; a transport error rejects\<close>
  "fetch w req =
     ([req], case http w req of Failed \<Rightarrow> Inl FetchError | Answered r \<Rightarrow> Inr r)"

definition json :: "response \<Rightarrow> jsval io" where
  \<comment> \<open>\<open>await response.json()\<close>: rejects when the body is not JSON\<close>
  "json r = io_lift (case body r of None \<Rightarrow> Inl SyntaxError | Some v \<Rightarrow> Inr v)"

section \<open>Venue registry\<close>

record venue_config =
  name :: string
  api_url :: string
  enabled :: bool

definition binance_config :: venue_config where
  "binance_config =
     \<lparr>name = ''Binance Futures'', api_url = ''https://fapi.binance.com'', enabled = True\<rparr>"

definition bybit_config :: venue_config where
  "bybit_config = \<lparr>name = ''Bybit'', api_url = ''https://api.bybit.com'', enabled = True\<rparr>"

definition okx_config :: venue_config where
  "okx_config = \<lparr>name = ''OKX'', api_url = ''https://www.okx.com'', enabled = True\<rparr>"

definition hyperliquid_config :: venue_config where
  "hyperliquid_config =
     \<lparr>name = ''Hyperliquid'', api_url = ''https://api.hyperliquid.xyz'', enabled = True\<rparr>"

definition VENUE_CONFIG :: "(string \<times> venue_config) list" where
  "VENUE_CONFIG =
     [(''binance'', binance_config), (''bybit'', bybit_config),
      (''okx'', okx_config), (''hyperliquid'', hyperliquid_config)]"

definition getSupportedVenues :: "string list" where
  "getSupportedVenues = map fst (filter (\<lambda>(_, config). enabled config) VENUE_CONFIG)"

section \<open>Per-venue adapters\<close>

text \<open>
  The record an adapter returns. \<open>skew\<close>, \<open>mark_price\<close> and \<open>index_price\<close> are
  nullable in the output schema (\<open>None\<close> is \<open>null\<close>). \<open>timestamp\<close> is the instant
  whose ISO-8601 text the source stores, kept as epoch milliseconds.
\<close>

record FundingRecord =
  venue :: string
  market :: string
  funding_rate :: number
  time_to_next :: number
  open_interest :: number
  skew :: "number option"
  mark_price :: "number option"
  index_price :: "number option"
  timestamp :: int

text \<open>
  Each adapter is its source text, statement by statement: an \<open>await\<close> or a property
  read that can throw is a bind, an early \<open>return null\<close> ends with \<open>None\<close>, and the
  whole body sits in the \<open>try\<close> whose \<open>catch\<close> returns \<open>null\<close>. Two shortcuts are
  taken. The skew expression, written out four times in the source, is \<open>skew_of\<close>.
  Where the source reads a value again that a guard has just read
  (\<open>data.result.list[0]\<close> after \<open>data.result?.list?.length\<close> in Bybit's adapter,
  \<open>data.data[0]\<close> after \<open>data.data?.length\<close> in OKX's), the value already read is
  used: reading a property of JSON data has no effect.
\<close>

definition skew_of :: "number \<Rightarrow> number" where
  \<comment> \<open>the expression every adapter writes out for \<open>skew\<close>:
      \<open>fundingRate !== 0 ? Math.min(Math.max(fundingRate / 0.1, -1.0), 1.0) : 0.0\<close>\<close>
  "skew_of fundingRate =
     (if strict_neq fundingRate (Num 0)
      then Math_min (Math_max (js_div fundingRate (to_double (1 / 10))) (Num (- 1))) (Num 1)
      else Num 0)"

definition fetchBinanceFunding :: "world \<Rightarrow> string \<Rightarrow> FundingRecord option io" where
  "fetchBinanceFunding w mkt =
     io_catch
       (let symbol = replace (replace mkt ''/'' []) '':USDT'' [];
            url = api_url binance_config @ ''/fapi/v1/premiumIndex?symbol='' @ symbol
        in io_bind (fetch w (GET url)) (\<lambda>response.
           if \<not> ok response then io_return None
           else
           io_bind (json response) (\<lambda>data.
           let oiUrl = api_url binance_config @ ''/fapi/v1/openInterest?symbol='' @ symbol
           in io_bind (fetch w (GET oiUrl)) (\<lambda>oiResponse.
           io_bind (if ok oiResponse then json oiResponse else io_return (JObj [])) (\<lambda>oiData.
           io_bind (io_lift (get_prop data ''lastFundingRate'')) (\<lambda>lastFundingRate.
           let fundingRate = js_mul (parseFloat (js_or lastFundingRate (JStr ''0''))) (Num 100)
           in io_bind (io_lift (get_prop data ''markPrice'')) (\<lambda>markPrice_raw.
           let markPrice = parseFloat (js_or markPrice_raw (JStr ''0''))
           in io_bind (io_lift (get_prop oiData ''openInterest'')) (\<lambda>openInterest_raw.
           let openInterest = js_mul (parseFloat (js_or openInterest_raw (JStr ''0''))) markPrice;
               skew_val = skew_of fundingRate
           in io_bind (io_lift (get_prop data ''indexPrice'')) (\<lambda>indexPrice_raw.
           io_return (Some
             \<lparr>venue = ''binance'',
              market = mkt,
              funding_rate = fundingRate,
              time_to_next = calculateTimeToNextFunding (clock w),
              open_interest = openInterest,
              skew = Some skew_val,
              mark_price = Some markPrice,
              index_price = Some (parseFloat (js_or indexPrice_raw (JStr ''0''))),
              timestamp = clock w\<rparr>))))))))))
       (\<lambda>error. io_return None)"

definition fetchBybitFunding :: "world \<Rightarrow> string \<Rightarrow> FundingRecord option io" where
  "fetchBybitFunding w mkt =
     io_catch
       (let symbol = replace (replace mkt ''/'' []) '':USDT'' [];
            url = api_url bybit_config @ ''/v5/market/tickers?category=linear&symbol='' @ symbol
        in io_bind (fetch w (GET url)) (\<lambda>response.
           if \<not> ok response then io_return None
           else
           io_bind (json response) (\<lambda>data.
           io_bind (io_lift (get_prop data ''retCode'')) (\<lambda>retCode.
           if retCode \<noteq> JNum 0 then io_return None
           else
           io_bind (io_lift (get_prop data ''result'')) (\<lambda>result.
           io_bind (io_lift (opt_get result ''list'')) (\<lambda>list_raw.
           io_bind (io_lift (opt_get list_raw ''length'')) (\<lambda>list_length.
           if \<not> truthy list_length then io_return None
           else
           io_bind (io_lift (get_index list_raw 0)) (\<lambda>ticker.
           io_bind (io_lift (get_prop ticker ''fundingRate'')) (\<lambda>fundingRate_raw.
           let fundingRate = js_mul (parseFloat (js_or fundingRate_raw (JStr ''0''))) (Num 100)
           in io_bind (io_lift (get_prop ticker ''markPrice'')) (\<lambda>markPrice_raw.
           let markPrice = parseFloat (js_or markPrice_raw (JStr ''0''))
           in io_bind (io_lift (get_prop ticker ''openInterest'')) (\<lambda>openInterest_raw.
           let openInterest = js_mul (parseFloat (js_or openInterest_raw (JStr ''0''))) markPrice
           in io_bind (io_lift (get_prop ticker ''indexPrice'')) (\<lambda>indexPrice_raw.
           io_return (Some
             \<lparr>venue = ''bybit'',
              market = mkt,
              funding_rate = fundingRate,
              time_to_next = calculateTimeToNextFunding (clock w),
              open_interest = openInterest,
              skew = Some (skew_of fundingRate),
              mark_price = Some markPrice,
              index_price = Some (parseFloat (js_or indexPrice_raw (JStr ''0''))),
              timestamp = clock w\<rparr>)))))))))))))
       (\<lambda>error. io_return None)"

definition fetchOkxFunding :: "world \<Rightarrow> string \<Rightarrow> FundingRecord option io" where
  "fetchOkxFunding w mkt =
     io_catch
       (let symbol = replace (replace mkt ''/'' ''-'') '':USDT'' ''-SWAP'';
            url = api_url okx_config @ ''/api/v5/public/funding-rate?instId='' @ symbol
        in io_bind (fetch w (GET url)) (\<lambda>response.
           if \<not> ok response then io_return None
           else
           io_bind (json response) (\<lambda>data.
           io_bind (io_lift (get_prop data ''code'')) (\<lambda>code.
           if code \<noteq> JStr ''0'' then io_return None
           else
           io_bind (io_lift (get_prop data ''data'')) (\<lambda>data_data.
           io_bind (io_lift (opt_get data_data ''length'')) (\<lambda>data_length.
           if \<not> truthy data_length then io_return None
           else
           io_bind (io_lift (get_index data_data 0)) (\<lambda>fundingData.
           io_bind (io_lift (get_prop fundingData ''fundingRate'')) (\<lambda>fundingRate_raw.
           let fundingRate = js_mul (parseFloat (js_or fundingRate_raw (JStr ''0''))) (Num 100)
           in io_bind (io_lift (get_prop fundingData ''fundingTime'')) (\<lambda>fundingTime.
           io_return (Some
             \<lparr>venue = ''okx'',
              market = mkt,
              funding_rate = fundingRate,
              time_to_next =
                js_sub (js_div (parseInt (js_or fundingTime (JStr ''0''))) (Num 1000))
                       (js_div (Num (of_int (clock w))) (Num 1000)),
              open_interest = Num 0,
              skew = Some (skew_of fundingRate),
              mark_price = None,
              index_price = None,
              timestamp = clock w\<rparr>))))))))))
       (\<lambda>error. io_return None)"

fun findIndex_name :: "string \<Rightarrow> jsval list \<Rightarrow> nat \<Rightarrow> exn + int" where
  \<comment> \<open>\<open>universe.findIndex((u) => u.name === symbol)\<close>, scanning from position \<open>i\<close>\<close>
  "findIndex_name symbol [] i = Inr (- 1)"
| "findIndex_name symbol (u # us) i =
     (case get_prop u ''name'' of
        Inl e \<Rightarrow> Inl e
      | Inr v \<Rightarrow> if v = JStr symbol then Inr (int i) else findIndex_name symbol us (Suc i))"

definition opt_findIndex :: "jsval \<Rightarrow> string \<Rightarrow> exn + int option" where
  \<comment> \<open>\<open>universe?.findIndex(...)\<close>: \<open>undefined\<close> (\<open>None\<close>) on \<open>null\<close> or \<open>undefined\<close>;
      a value that is not an array has no such method, and calling it throws\<close>
  "opt_findIndex universe symbol =
     (case universe of
        JUndefined \<Rightarrow> Inr None
      | JNull \<Rightarrow> Inr None
      | JArr us \<Rightarrow> (case findIndex_name symbol us 0 of Inl e \<Rightarrow> Inl e | Inr i \<Rightarrow> Inr (Some i))
      | _ \<Rightarrow> Inl TypeError)"

definition index_key :: "int option \<Rightarrow> string" where
  \<comment> \<open>the property name that \<open>assetIndex\<close> stands for in \<open>data[1][assetIndex]\<close>\<close>
  "index_key assetIndex =
     (case assetIndex of None \<Rightarrow> ''undefined'' | Some i \<Rightarrow> string_of_nat (nat i))"

definition fetchHyperliquidFunding :: "world \<Rightarrow> string \<Rightarrow> FundingRecord option io" where
  \<open>fetchHyperliquidFunding w mkt =
     io_catch
       (let symbol = (case split mkt (CHR ''/'') of x # _ \<Rightarrow> x | [] \<Rightarrow> []);
            url = api_url hyperliquid_config @ ''/info''
        in io_bind (fetch w (POST url ''{"type":"metaAndAssetCtxs"}'')) (\<lambda>response.
           if \<not> ok response then io_return None
           else
           io_bind (json response) (\<lambda>data.
           io_bind (io_lift (get_index data 0)) (\<lambda>data0.
           io_bind (io_lift (opt_get data0 ''universe'')) (\<lambda>universe.
           io_bind (io_lift (opt_findIndex universe symbol)) (\<lambda>assetIndex.
           if assetIndex = Some (- 1) then io_return None
           else
           io_bind (io_lift (get_index data 1)) (\<lambda>data1.
           if \<not> truthy data1 then io_return None
           else
           io_bind (io_lift (get_prop data1 (index_key assetIndex))) (\<lambda>assetCtx.
           io_bind (io_lift (get_prop assetCtx ''funding'')) (\<lambda>funding.
           let fundingRate = js_mul (parseFloat (js_or funding (JStr ''0''))) (Num 100)
           in io_bind (io_lift (get_prop assetCtx ''openInterest'')) (\<lambda>openInterest_raw.
           io_bind (io_lift (get_prop assetCtx ''markPx'')) (\<lambda>markPx.
           io_bind (io_lift (get_prop assetCtx ''oraclePx'')) (\<lambda>oraclePx.
           io_return (Some
             \<lparr>venue = ''hyperliquid'',
              market = mkt,
              funding_rate = fundingRate,
              time_to_next = calculateTimeToNextFunding (clock w),
              open_interest = parseFloat (js_or openInterest_raw (JStr ''0'')),
              skew = Some (skew_of fundingRate),
              mark_price = Some (parseFloat (js_or markPx (JStr ''0''))),
              index_price = Some (parseFloat (js_or oraclePx (JStr ''0''))),
              timestamp = clock w\<rparr>)))))))))))))
       (\<lambda>error. io_return None)\<close>

section \<open>Aggregator\<close>

text \<open>
  The source starts every adapter call when it pushes it and lets the calls run
  concurrently. The calls share no state, so what each returns does not depend on the
  interleaving; the model runs them one after the other, in the order they were pushed,
  and lists their requests in that order.
\<close>

datatype 'a settled = Fulfilled 'a | Rejected exn

definition settle :: "'a io \<Rightarrow> 'a settled" where
  \<comment> \<open>how the promise of an asynchronous computation settles\<close>
  "settle m = (case snd m of Inl e \<Rightarrow> Rejected e | Inr v \<Rightarrow> Fulfilled v)"

definition Promise_allSettled :: "'a io list \<Rightarrow> 'a settled list io" where
  \<comment> \<open>waits for every task and never rejects; the requests of the tasks are listed
      task by task, in the order the tasks were started\<close>
  "Promise_allSettled tasks = (concat (map fst tasks), Inr (map settle tasks))"

fun fulfilled_values :: "'a option settled list \<Rightarrow> 'a list" where
  \<comment> \<open>\<open>results.filter(r => r.status === 'fulfilled' && r.value !== null).map(r => r.value)\<close>\<close>
  "fulfilled_values [] = []"
| "fulfilled_values (Fulfilled (Some v) # rs) = v # fulfilled_values rs"
| "fulfilled_values (Fulfilled None # rs) = fulfilled_values rs"
| "fulfilled_values (Rejected e # rs) = fulfilled_values rs"

definition push_task ::
  "world \<Rightarrow> string \<Rightarrow> string \<Rightarrow> FundingRecord option io list
     \<Rightarrow> FundingRecord option io list" where
  \<comment> \<open>the body of the inner loop: the adapter call starts when it is pushed\<close>
  "push_task w venueId mkt tasks =
     (if venueId = ''binance'' then tasks @ [fetchBinanceFunding w mkt]
      else if venueId = ''bybit'' then tasks @ [fetchBybitFunding w mkt]
      else if venueId = ''okx'' then tasks @ [fetchOkxFunding w mkt]
      else if venueId = ''hyperliquid'' then tasks @ [fetchHyperliquidFunding w mkt]
      else tasks)"

fun push_markets ::
  "world \<Rightarrow> string \<Rightarrow> string list \<Rightarrow> FundingRecord option io list
     \<Rightarrow> FundingRecord option io list" where
  \<comment> \<open>the inner loop \<open>for (const market of markets)\<close>\<close>
  "push_markets w venueId [] tasks = tasks"
| "push_markets w venueId (mkt # rest) tasks =
     push_markets w venueId rest (push_task w venueId mkt tasks)"

fun push_venues ::
  "world \<Rightarrow> string list \<Rightarrow> string list \<Rightarrow> FundingRecord option io list
     \<Rightarrow> FundingRecord option io list" where
  \<comment> \<open>the outer loop \<open>for (const venueId of venueIds)\<close>\<close>
  "push_venues w [] markets tasks = tasks"
| "push_venues w (venueId # rest) markets tasks =
     push_venues w rest markets
       (if venueId \<notin> set getSupportedVenues then tasks
        else push_markets w venueId markets tasks)"

definition fetchFundingData :: "world \<Rightarrow> string list \<Rightarrow> string list \<Rightarrow> FundingRecord list io" where
  "fetchFundingData w venueIds markets =
     (let tasks = push_venues w venueIds markets []
      in io_bind (Promise_allSettled tasks) (\<lambda>results.
         io_return (fulfilled_values results)))"

section \<open>Entry point\<close>

record FundingInput =
  venue_ids :: "string list"
  markets :: "string list"

text \<open>
  The response. Its fields \<open>markets\<close> and \<open>timestamp\<close> are written \<open>out_markets\<close>
  and \<open>out_timestamp\<close> here, apart from the fields of the request and of a record.
\<close>

record FundingOutput =
  total_markets :: nat
  out_markets :: "FundingRecord list"
  out_timestamp :: int

definition handler :: "world \<Rightarrow> FundingInput \<Rightarrow> FundingOutput io" where
  "handler w inp =
     (let supportedVenues = getSupportedVenues;
          invalidVenues = filter (\<lambda>v. v \<notin> set supportedVenues) (venue_ids inp)
      in if length invalidVenues > 0
         then io_throw (Error (''Venues not supported: '' @ join invalidVenues '', '' @
                               ''. Available: '' @ join supportedVenues '', ''))
         else
           io_bind (fetchFundingData w (venue_ids inp) (markets inp)) (\<lambda>fundingData.
           if length fundingData = 0
           then io_throw (Error ''Failed to fetch funding data from any venue'')
           else io_return
                  \<lparr>total_markets = length fundingData,
                   out_markets = fundingData,
                   out_timestamp = clock w\<rparr>))"

section \<open>Notions used to state the properties\<close>

definition adapters :: "(world \<Rightarrow> string \<Rightarrow> FundingRecord option io) list" where
  \<comment> \<open>the four per-venue adapters\<close>
  "adapters =
     [fetchBinanceFunding, fetchBybitFunding, fetchOkxFunding, fetchHyperliquidFunding]"

definition produces_only :: "(FundingRecord \<Rightarrow> bool) \<Rightarrow> FundingRecord option io \<Rightarrow> bool" where
  \<comment> \<open>every record the computation returns satisfies \<open>P\<close>\<close>
  "produces_only P m = (\<forall>r. snd m = Inr (Some r) \<longrightarrow> P r)"

definition clamp :: "rat \<Rightarrow> rat \<Rightarrow> rat \<Rightarrow> rat" where
  \<comment> \<open>\<open>clamp(x, lo, hi)\<close> as the specification uses it\<close>
  "clamp x lo hi = (if x < lo then lo else if hi < x then hi else x)"

definition clamp_number :: "number \<Rightarrow> rat \<Rightarrow> rat \<Rightarrow> number" where
  \<comment> \<open>\<open>clamp\<close> on numbers: an infinity goes to the bound on its side, \<open>NaN\<close> stays
      \<open>NaN\<close>\<close>
  "clamp_number x lo hi =
     (case x of NaN \<Rightarrow> NaN | PosInf \<Rightarrow> Num hi | NegInf \<Rightarrow> Num lo
              | Num a \<Rightarrow> Num (clamp a lo hi))"

definition adapter_of :: "string \<Rightarrow> (world \<Rightarrow> string \<Rightarrow> FundingRecord option io) option" where
  \<comment> \<open>the adapter that serves a venue identifier, if any\<close>
  "adapter_of venueId =
     (if venueId = ''binance'' then Some fetchBinanceFunding
      else if venueId = ''bybit'' then Some fetchBybitFunding
      else if venueId = ''okx'' then Some fetchOkxFunding
      else if venueId = ''hyperliquid'' then Some fetchHyperliquidFunding
      else None)"

definition dispatched_calls ::
  "world \<Rightarrow> string list \<Rightarrow> string list \<Rightarrow> FundingRecord option io list" where
  \<comment> \<open>the adapter calls for the requested venue/market pairs, venue by venue\<close>
  "dispatched_calls w venueIds mkts =
     concat (map (\<lambda>venueId. case adapter_of venueId of
                                None \<Rightarrow> []
                              | Some f \<Rightarrow> map (f w) mkts) venueIds)"

definition non_null_records :: "FundingRecord option io list \<Rightarrow> FundingRecord list" where
  \<comment> \<open>the records of the calls that returned one; a call that returned \<open>null\<close> or
      threw contributes nothing\<close>
  "non_null_records calls =
     concat (map (\<lambda>c. case snd c of Inr (Some r) \<Rightarrow> [r] | _ \<Rightarrow> []) calls)"

definition quiet :: "'a io \<Rightarrow> bool" where
  \<comment> \<open>the computation sends no request\<close>
  "quiet m = (fst m = [])"

definition field_number :: "jsval \<Rightarrow> string \<Rightarrow> number" where
  \<comment> \<open>the number an adapter reads from a field: \<open>parseFloat(v.k || '0')\<close>
      (0 where the read itself would throw)\<close>
  "field_number v k =
     (case get_prop v k of Inl e \<Rightarrow> Num 0 | Inr x \<Rightarrow> parseFloat (js_or x (JStr ''0'')))"

definition nonneg_finite :: "number \<Rightarrow> bool" where
  "nonneg_finite x = (case x of Num a \<Rightarrow> 0 \<le> a | _ \<Rightarrow> False)"

fun every_object :: "(jsval \<Rightarrow> bool) \<Rightarrow> jsval \<Rightarrow> bool" where
  \<comment> \<open>\<open>Q\<close> holds of every object inside a JSON value\<close>
  "every_object Q (JArr xs) = list_all (every_object Q) xs"
| "every_object Q (JObj kvs) =
     (Q (JObj kvs) \<and> list_all (\<lambda>kv. every_object Q (snd kv)) kvs)"
| "every_object Q v = True"

definition nonneg_payload :: "jsval \<Rightarrow> bool" where
  \<comment> \<open>every object of the payload reports a non-negative finite open interest and mark
      price, where it reports one\<close>
  "nonneg_payload v =
     every_object (\<lambda>obj. nonneg_finite (field_number obj ''openInterest'') \<and>
                         nonneg_finite (field_number obj ''markPrice'')) v"

definition nonneg_world :: "world \<Rightarrow> bool" where
  \<comment> \<open>every successful JSON answer of the venues is such a payload\<close>
  "nonneg_world w =
     (\<forall>req b. http w req = Answered (Response True (Some b)) \<longrightarrow> nonneg_payload b)"

definition no_oi_payload :: "jsval \<Rightarrow> bool" where
  \<comment> \<open>no object of the payload has an \<open>openInterest\<close> field\<close>
  "no_oi_payload v = every_object (\<lambda>obj. get_prop obj ''openInterest'' = Inr JUndefined) v"

definition no_oi_world :: "world \<Rightarrow> bool" where
  "no_oi_world w =
     (\<forall>req b. http w req = Answered (Response True (Some b)) \<longrightarrow> no_oi_payload b)"

section \<open>Example worlds\<close>

text \<open>
  A world in which the four venues answer for \<open>BTC/USDT:USDT\<close>, at
  2023-11-14 22:13:20.500 UTC; the next funding instant is 2023-11-15 00:00:00 UTC.
  In the records a double that is no short fraction is written by its decimal text:
  \<open>to_double (15 / 100)\<close> is the double \<open>0.15\<close>, and the skew of the Bybit record is the
  double \<open>0.09999999999999999\<close>, the quotient of the doubles \<open>0.01\<close> and \<open>0.1\<close>.
\<close>

definition binance_premium_request :: request where
  "binance_premium_request = GET ''https://fapi.binance.com/fapi/v1/premiumIndex?symbol=BTCUSDT''"

definition binance_oi_request :: request where
  "binance_oi_request = GET ''https://fapi.binance.com/fapi/v1/openInterest?symbol=BTCUSDT''"

definition bybit_request :: request where
  "bybit_request =
     GET ''https://api.bybit.com/v5/market/tickers?category=linear&symbol=BTCUSDT''"

definition okx_request :: request where
  "okx_request = GET ''https://www.okx.com/api/v5/public/funding-rate?instId=BTC-USDT-SWAP''"

definition hyperliquid_request :: request where
  \<open>hyperliquid_request =
     POST ''https://api.hyperliquid.xyz/info'' ''{"type":"metaAndAssetCtxs"}''\<close>

definition binance_premium_payload :: jsval where
  "binance_premium_payload =
     JObj [(''symbol'', JStr ''BTCUSDT''), (''markPrice'', JStr ''50000.00''),
           (''indexPrice'', JStr ''49990.50''), (''lastFundingRate'', JStr ''0.0015''),
           (''nextFundingTime'', JNum 1700006400000)]"

definition binance_oi_payload :: jsval where
  "binance_oi_payload = JObj [(''openInterest'', JStr ''1000.5''), (''symbol'', JStr ''BTCUSDT'')]"

definition bybit_payload :: jsval where
  "bybit_payload =
     JObj [(''retCode'', JNum 0), (''retMsg'', JStr ''OK''),
           (''result'',
            JObj [(''category'', JStr ''linear''),
                  (''list'',
                   JArr [JObj [(''symbol'', JStr ''BTCUSDT''), (''markPrice'', JStr ''50001.00''),
                               (''indexPrice'', JStr ''49991.00''),
                               (''openInterest'', JStr ''2000''),
                               (''fundingRate'', JStr ''0.0001'')]])])]"

definition okx_payload :: jsval where
  "okx_payload =
     JObj [(''code'', JStr ''0''), (''msg'', JStr []),
           (''data'',
            JArr [JObj [(''instId'', JStr ''BTC-USDT-SWAP''), (''fundingRate'', JStr ''-0.0002''),
                        (''fundingTime'', JStr ''1700006400000'')]])]"

definition hyperliquid_payload :: jsval where
  "hyperliquid_payload =
     JArr [JObj [(''universe'',
                  JArr [JObj [(''name'', JStr ''ETH''), (''szDecimals'', JNum 4)],
                        JObj [(''name'', JStr ''BTC''), (''szDecimals'', JNum 5)]])],
           JArr [JObj [(''funding'', JStr ''0.00001''), (''openInterest'', JStr ''500''),
                       (''markPx'', JStr ''3000''), (''oraclePx'', JStr ''2999'')],
                 JObj [(''funding'', JStr ''0.0000125''), (''openInterest'', JStr ''688.5''),
                       (''markPx'', JStr ''50002.0''), (''oraclePx'', JStr ''49995.0'')]]]"

definition example_http :: "request \<Rightarrow> outcome" where
  "example_http req =
     (if req = binance_premium_request then Answered (Response True (Some binance_premium_payload))
      else if req = binance_oi_request then Answered (Response True (Some binance_oi_payload))
      else if req = bybit_request then Answered (Response True (Some bybit_payload))
      else if req = okx_request then Answered (Response True (Some okx_payload))
      else if req = hyperliquid_request then Answered (Response True (Some hyperliquid_payload))
      else Failed)"

definition example_world :: world where
  "example_world = \<lparr>http = example_http, clock = 1700000000500\<rparr>"

definition binance_example_record :: FundingRecord where
  "binance_example_record =
     \<lparr>venue = ''binance'', market = ''BTC/USDT:USDT'', funding_rate = to_double (15 / 100),
      time_to_next = Num 6400, open_interest = Num 50025000, skew = Some (Num 1),
      mark_price = Some (Num 50000), index_price = Some (Num (99981 / 2)),
      timestamp = 1700000000500\<rparr>"

definition bybit_example_record :: FundingRecord where
  "bybit_example_record =
     \<lparr>venue = ''bybit'', market = ''BTC/USDT:USDT'', funding_rate = to_double (1 / 100),
      time_to_next = Num 6400, open_interest = Num 100002000,
      skew = Some (to_double (9999999999999999 / 10 ^ 17)),
      mark_price = Some (Num 50001), index_price = Some (Num 49991),
      timestamp = 1700000000500\<rparr>"

definition okx_example_record :: FundingRecord where
  "okx_example_record =
     \<lparr>venue = ''okx'', market = ''BTC/USDT:USDT'', funding_rate = to_double (- (2 / 100)),
      time_to_next = Num (12799 / 2), open_interest = Num 0,
      skew = Some (to_double (- (19999999999999998 / 10 ^ 17))),
      mark_price = None, index_price = None,
      timestamp = 1700000000500\<rparr>"

definition hyperliquid_example_record :: FundingRecord where
  "hyperliquid_example_record =
     \<lparr>venue = ''hyperliquid'', market = ''BTC/USDT:USDT'', funding_rate = to_double (125 / 100000),
      time_to_next = Num 6400, open_interest = Num (1377 / 2),
      skew = Some (to_double (12499999999999999 / 10 ^ 18)),
      mark_price = Some (Num 50002), index_price = Some (Num 49995),
      timestamp = 1700000000500\<rparr>"

definition late_world :: world where
  \<comment> \<open>a quarter of a second after the funding instant that OKX still reports\<close>
  "late_world = example_world\<lparr>clock := 1700006400250\<rparr>"

definition binance_down_world :: world where
  \<comment> \<open>the example world with Binance unreachable\<close>
  "binance_down_world =
     example_world
       \<lparr>http := (\<lambda>req. if req = binance_premium_request \<or> req = binance_oi_request
                         then Failed else example_http req)\<rparr>"

definition all_down_world :: world where
  \<comment> \<open>no venue is reachable\<close>
  "all_down_world = example_world\<lparr>http := (\<lambda>req. Failed)\<rparr>"

definition oi_down_world :: world where
  \<comment> \<open>the example world with Binance's open-interest endpoint answering an error status\<close>
  "oi_down_world =
     example_world
       \<lparr>http := (\<lambda>req. if req = binance_oi_request
                         then Answered (Response False
                                (Some (JObj [(''code'', JNum (- 1003)),
                                             (''msg'', JStr ''Too many requests.'')])))
                         else example_http req)\<rparr>"

definition empty_payload_world :: world where
  \<comment> \<open>Binance answers both requests with the empty object\<close>
  "empty_payload_world =
     example_world
       \<lparr>http := (\<lambda>req. if req = binance_premium_request \<or> req = binance_oi_request
                         then Answered (Response True (Some (JObj [])))
                         else Failed)\<rparr>"

definition negative_oi_payload :: jsval where
  "negative_oi_payload =
     JArr [JObj [(''universe'', JArr [JObj [(''name'', JStr ''BTC'')]])],
           JArr [JObj [(''funding'', JStr ''0.0000125''), (''openInterest'', JStr ''-688.5''),
                       (''markPx'', JStr ''50002.0''), (''oraclePx'', JStr ''49995.0'')]]]"

definition negative_oi_world :: world where
  \<comment> \<open>Hyperliquid reports a negative open interest\<close>
  "negative_oi_world =
     example_world
       \<lparr>http := (\<lambda>req. if req = hyperliquid_request
                         then Answered (Response True (Some negative_oi_payload))
                         else Failed)\<rparr>"

definition nan_rate_payload :: jsval where
  "nan_rate_payload =
     JObj [(''code'', JStr ''0''), (''msg'', JStr []),
           (''data'',
            JArr [JObj [(''instId'', JStr ''BTC-USDT-SWAP''), (''fundingRate'', JStr ''n/a''),
                        (''fundingTime'', JStr ''1700006400000'')]])]"

definition nan_rate_world :: world where
  \<comment> \<open>OKX reports a funding rate that is not decimal text\<close>
  "nan_rate_world =
     example_world
       \<lparr>http := (\<lambda>req. if req = okx_request
                         then Answered (Response True (Some nan_rate_payload))
                         else Failed)\<rparr>"

definition nan_rate_record :: FundingRecord where
  "nan_rate_record = okx_example_record\<lparr>funding_rate := NaN, skew := Some NaN\<rparr>"

definition overflow_payload :: jsval where
  "overflow_payload =
     JObj [(''retCode'', JNum 0),
           (''result'',
            JObj [(''list'',
                   JArr [JObj [(''markPrice'', JStr ''1e308''), (''openInterest'', JStr ''10''),
                               (''fundingRate'', JStr ''0.0001'')]])])]"

definition overflow_world :: world where
  \<comment> \<open>Bybit reports a count and a mark price whose product exceeds every double\<close>
  "overflow_world =
     example_world
       \<lparr>http := (\<lambda>req. if req = bybit_request
                         then Answered (Response True (Some overflow_payload))
                         else Failed)\<rparr>"

section \<open>The funding-time calculator: properties\<close>

lemma getUTCHours_range: "0 \<le> getUTCHours t \<and> getUTCHours t < 24"
  by (simp add: getUTCHours_def)

lemma getUTCMinutes_range: "0 \<le> getUTCMinutes t \<and> getUTCMinutes t < 60"
  by (simp add: getUTCMinutes_def)

lemma getUTCSeconds_range: "0 \<le> getUTCSeconds t \<and> getUTCSeconds t < 60"
  by (simp add: getUTCSeconds_def)

lemma calculateTimeToNextFunding_eq:
  "calculateTimeToNextFunding now =
     Num (of_int ((if getUTCHours now < 8 then 8 - getUTCHours now
                   else if getUTCHours now < 16 then 16 - getUTCHours now
                   else 24 - getUTCHours now) * 3600
                  - (getUTCMinutes now * 60 + getUTCSeconds now)))"
proof -
  have h: "0 \<le> getUTCHours now" "getUTCHours now < 24"
    using getUTCHours_range [of now] by simp_all
  have m: "0 \<le> getUTCMinutes now" "getUTCMinutes now < 60"
    using getUTCMinutes_range [of now] by simp_all
  have s: "0 \<le> getUTCSeconds now" "getUTCSeconds now < 60"
    using getUTCSeconds_range [of now] by simp_all
  consider "getUTCHours now < 8" | "8 \<le> getUTCHours now" "getUTCHours now < 16"
    | "16 \<le> getUTCHours now"
    by linarith
  then show ?thesis
  proof cases
    case 1
    with h m s show ?thesis
      by (simp add: calculateTimeToNextFunding_def nextFundingHours_def Let_def max_def)
  next
    case 2
    with h m s show ?thesis
      by (simp add: calculateTimeToNextFunding_def nextFundingHours_def Let_def max_def)
  next
    case 3
    with h m s show ?thesis
      by (simp add: calculateTimeToNextFunding_def nextFundingHours_def Let_def max_def)
  qed
qed

text \<open>
  C3. At UTC 07:59:59 the calculator returns 1; at exactly UTC 08:00:00 it returns 28800
  (the next boundary is 16:00); at UTC 23:00:00 it returns 3600 (the next day's 00:00).
  This holds on every day: only the UTC hour, minute and second of the instant matter.
\<close>

theorem calculateTimeToNextFunding_examples:
  "(getUTCHours t1 = 7 \<and> getUTCMinutes t1 = 59 \<and> getUTCSeconds t1 = 59
      \<longrightarrow> calculateTimeToNextFunding t1 = Num 1) \<and>
   (getUTCHours t2 = 8 \<and> getUTCMinutes t2 = 0 \<and> getUTCSeconds t2 = 0
      \<longrightarrow> calculateTimeToNextFunding t2 = Num 28800) \<and>
   (getUTCHours t3 = 23 \<and> getUTCMinutes t3 = 0 \<and> getUTCSeconds t3 = 0
      \<longrightarrow> calculateTimeToNextFunding t3 = Num 3600)"
  by (simp add: calculateTimeToNextFunding_eq)

theorem calculateTimeToNextFunding_examples_witness:
  "(getUTCHours 1761897599000 = 7 \<and> getUTCMinutes 1761897599000 = 59 \<and>
    getUTCSeconds 1761897599000 = 59 \<and> calculateTimeToNextFunding 1761897599000 = Num 1) \<and>
   (getUTCHours 1761897600000 = 8 \<and> getUTCMinutes 1761897600000 = 0 \<and>
    getUTCSeconds 1761897600000 = 0 \<and> calculateTimeToNextFunding 1761897600000 = Num 28800) \<and>
   (getUTCHours 1761951600000 = 23 \<and> getUTCMinutes 1761951600000 = 0 \<and>
    getUTCSeconds 1761951600000 = 0 \<and> calculateTimeToNextFunding 1761951600000 = Num 3600)"
  using calculateTimeToNextFunding_examples
          [of 1761897599000 1761897600000 1761951600000]
  by (simp add: getUTCHours_def getUTCMinutes_def getUTCSeconds_def)

text \<open>
  C2 (as stated: on a boundary instant the calculator returns 0). It does not: at
  2025-10-31 08:00:00 UTC, a boundary of the schedule, the result is not 0.
\<close>

theorem boundary_returns_zero_counterexample:
  "getUTCHours 1761897600000 = 8 \<and> getUTCMinutes 1761897600000 = 0 \<and>
   getUTCSeconds 1761897600000 = 0 \<and> calculateTimeToNextFunding 1761897600000 \<noteq> Num 0"
  by (simp add: calculateTimeToNextFunding_eq getUTCHours_def getUTCMinutes_def
        getUTCSeconds_def)

text \<open>
  C2 (amended). At every instant that lies exactly on a scheduled boundary (00:00, 08:00 or
  16:00 UTC, zero minutes and seconds) the calculator returns a full interval, 28800
  seconds: the next funding hour is searched strictly after the current hour.
\<close>

theorem boundary_returns_full_interval:
  "getUTCHours now \<in> {0, 8, 16} \<Longrightarrow> getUTCMinutes now = 0 \<Longrightarrow> getUTCSeconds now = 0
     \<Longrightarrow> calculateTimeToNextFunding now = Num 28800"
  by (auto simp add: calculateTimeToNextFunding_eq)

theorem boundary_returns_full_interval_witness:
  "getUTCHours 1761926400000 \<in> {0, 8, 16} \<and> getUTCMinutes 1761926400000 = 0 \<and>
   getUTCSeconds 1761926400000 = 0 \<and> calculateTimeToNextFunding 1761926400000 = Num 28800"
  using boundary_returns_full_interval [of 1761926400000]
  by (simp add: getUTCHours_def getUTCMinutes_def getUTCSeconds_def)

section \<open>Effects: basic laws\<close>

lemma snd_io_bind:
  "snd (io_bind m f) = (case snd m of Inl e \<Rightarrow> Inl e | Inr x \<Rightarrow> snd (f x))"
  by (cases m) (simp add: io_bind_def split: sum.split prod.split)

lemma fst_io_bind:
  "fst (io_bind m f) = (case snd m of Inl e \<Rightarrow> fst m | Inr x \<Rightarrow> fst m @ fst (f x))"
  by (cases m) (simp add: io_bind_def split: sum.split prod.split)

lemma snd_io_catch_None:
  "snd (io_catch m (\<lambda>e. io_return None)) = Inr (case snd m of Inl e \<Rightarrow> None | Inr v \<Rightarrow> v)"
  by (cases m) (simp add: io_catch_def io_return_def split: sum.split prod.split)

lemma fst_io_catch_None: "fst (io_catch m (\<lambda>e. io_return None)) = fst m"
  by (cases m) (simp add: io_catch_def io_return_def split: sum.split prod.split)

lemma snd_io_return: "snd (io_return x) = Inr x"
  by (simp add: io_return_def)

lemma fst_io_return: "fst (io_return x) = []"
  by (simp add: io_return_def)

lemma snd_io_lift: "snd (io_lift r) = r"
  by (simp add: io_lift_def)

lemma fst_io_lift: "fst (io_lift r) = []"
  by (simp add: io_lift_def)

lemma produces_only_return_None: "produces_only P (io_return None)"
  by (simp add: produces_only_def io_return_def)

lemma produces_only_return_Some: "P r \<Longrightarrow> produces_only P (io_return (Some r))"
  by (simp add: produces_only_def io_return_def)

lemma produces_only_bind:
  "(\<And>x. produces_only P (f x)) \<Longrightarrow> produces_only P (io_bind m f)"
  by (simp add: produces_only_def snd_io_bind split: sum.splits)

lemma produces_only_catch:
  "produces_only P m \<Longrightarrow> produces_only P (io_catch m (\<lambda>e. io_return None))"
  by (simp add: produces_only_def snd_io_catch_None split: sum.splits)

lemma produces_only_if:
  "(c \<Longrightarrow> produces_only P a) \<Longrightarrow> (\<not> c \<Longrightarrow> produces_only P b)
     \<Longrightarrow> produces_only P (if c then a else b)"
  by simp

lemmas produces_only_intros =
  produces_only_catch produces_only_bind produces_only_if produces_only_return_None
  produces_only_return_Some

lemma adapter_cases:
  assumes "f \<in> set adapters"
  obtains "f = fetchBinanceFunding" | "f = fetchBybitFunding" | "f = fetchOkxFunding"
    | "f = fetchHyperliquidFunding"
  using assms by (auto simp add: adapters_def)

section \<open>The example world, evaluated\<close>

lemma binance_example:
  "fetchBinanceFunding example_world ''BTC/USDT:USDT'' =
     ([binance_premium_request, binance_oi_request], Inr (Some binance_example_record))"
  by code_simp

lemma bybit_example:
  "fetchBybitFunding example_world ''BTC/USDT:USDT'' =
     ([bybit_request], Inr (Some bybit_example_record))"
  by code_simp

lemma okx_example:
  "fetchOkxFunding example_world ''BTC/USDT:USDT'' =
     ([okx_request], Inr (Some okx_example_record))"
  by code_simp

lemma hyperliquid_example:
  "fetchHyperliquidFunding example_world ''BTC/USDT:USDT'' =
     ([hyperliquid_request], Inr (Some hyperliquid_example_record))"
  by code_simp

section \<open>Rounding to a double\<close>

lemma to_double_zero: "to_double 0 = Num 0"
  by (simp add: to_double_def)

lemma to_double_not_NaN: "to_double x \<noteq> NaN"
  by (simp add: to_double_def Let_def split: prod.splits)

lemma round_half_even_nonneg: "0 \<le> n \<Longrightarrow> 0 < d \<Longrightarrow> 0 \<le> round_half_even n d"
  by (simp add: round_half_even_def Let_def pos_imp_zdiv_nonneg_iff)

lemma quotient_of_abs_nonneg:
  assumes "quotient_of \<bar>x\<bar> = (p, q)"
  shows "0 \<le> p \<and> 0 < q"
proof -
  have q: "0 < q" using assms by (rule quotient_of_denom_pos)
  have "\<bar>x\<bar> = of_int p / of_int q" using assms by (rule quotient_of_div)
  then have "0 \<le> (of_int p / of_int q :: rat)" by (metis abs_ge_zero)
  with q have "0 \<le> p" by (simp add: zero_le_divide_iff)
  with q show ?thesis by simp
qed

lemma to_double_nonneg:
  assumes "0 \<le> x"
  shows "to_double x = PosInf \<or> (\<exists>y. to_double x = Num y \<and> 0 \<le> y)"
proof (cases "x = 0")
  case True
  then show ?thesis by (simp add: to_double_zero)
next
  case False
  obtain p q where pq: "quotient_of \<bar>x\<bar> = (p, q)" by (cases "quotient_of \<bar>x\<bar>")
  from quotient_of_abs_nonneg [OF pq] have p: "0 \<le> p" and q: "0 < q" by simp_all
  from assms have nneg: "\<not> x < 0" by simp
  have m0: "0 \<le> round_half_even p q"
    using p q by (rule round_half_even_nonneg)
  have m1: "\<And>k. 0 \<le> round_half_even p (q * 2 ^ k)"
    using p q by (intro round_half_even_nonneg) simp_all
  have m2: "\<And>k. 0 \<le> round_half_even (p * 2 ^ k) q"
    using p q by (intro round_half_even_nonneg) simp_all
  from assms pq have pq': "quotient_of x = (p, q)" by simp
  show ?thesis
    using False nneg m0 m1 m2
    by (simp add: to_double_def pq' Let_def)
qed

lemma tenth: "to_double (1 / 10) = Num (3602879701896397 / 36028797018963968)"
  by code_simp

section \<open>Skew\<close>

lemma clamp_number_min_max:
  "Math_min (Math_max x (Num (- 1))) (Num 1) = clamp_number x (- 1) 1"
  by (cases x) (simp_all add: clamp_number_def clamp_def min_def max_def)

lemma skew_of_eq:
  "skew_of rate = clamp_number (js_div rate (to_double (1 / 10))) (- 1) 1"
proof (cases "rate = Num 0")
  case True
  then show ?thesis
    by (simp add: skew_of_def strict_neq_def tenth to_double_zero clamp_number_def clamp_def)
next
  case False
  then show ?thesis
    by (simp add: skew_of_def strict_neq_def clamp_number_min_max)
qed

lemma js_div_tenth_not_NaN: "rate \<noteq> NaN \<Longrightarrow> js_div rate (to_double (1 / 10)) \<noteq> NaN"
  by (cases rate) (simp_all add: tenth to_double_not_NaN)

lemma clamp_range: "lo \<le> hi \<Longrightarrow> lo \<le> clamp x lo hi \<and> clamp x lo hi \<le> hi"
  by (simp add: clamp_def)

lemma clamp_number_range:
  assumes "x \<noteq> NaN" and "lo \<le> hi"
  shows "\<exists>s. clamp_number x lo hi = Num s \<and> lo \<le> s \<and> s \<le> hi"
  using assms clamp_range [of lo hi]
  by (cases x) (simp_all add: clamp_number_def)

lemma skew_of_range:
  assumes "rate \<noteq> NaN"
  shows "\<exists>s. skew_of rate = Num s \<and> - 1 \<le> s \<and> s \<le> 1"
  unfolding skew_of_eq
  by (rule clamp_number_range [OF js_div_tenth_not_NaN [OF assms]]) simp

lemma skew_of_examples:
  "skew_of (Num 0) = Num 0"
  "skew_of (to_double (15 / 100)) = Num 1"
  "skew_of (to_double (- (2 / 10))) = Num (- 1)"
  "skew_of NaN = NaN"
  by code_simp+

lemma nan_rate_example:
  "fetchOkxFunding nan_rate_world ''BTC/USDT:USDT'' = ([okx_request], Inr (Some nan_rate_record))"
  by code_simp

lemma adapter_skew:
  assumes "f \<in> set adapters"
  shows "produces_only (\<lambda>r. skew r = Some (skew_of (funding_rate r))) (f w mkt)"
  using assms
proof (cases rule: adapter_cases)
  case 1
  show ?thesis unfolding 1 fetchBinanceFunding_def Let_def
    by (intro produces_only_intros) simp
next
  case 2
  show ?thesis unfolding 2 fetchBybitFunding_def Let_def
    by (intro produces_only_intros) simp
next
  case 3
  show ?thesis unfolding 3 fetchOkxFunding_def Let_def
    by (intro produces_only_intros) simp
next
  case 4
  show ?thesis unfolding 4 fetchHyperliquidFunding_def Let_def
    by (intro produces_only_intros) simp
qed

text \<open>
  C4 (as stated: for every funding rate the skew is the clamped ratio, so it always lies
  in \<open>[-1, 1]\<close>). It does not always: when OKX reports a funding rate that is not decimal
  text, the adapter produces a record whose funding rate is \<open>NaN\<close> and whose skew is
  \<open>NaN\<close>, which is neither at least \<open>-1\<close> nor at most 1.
\<close>

theorem nan_rate_skew_outside_range_counterexample:
  "fetchOkxFunding \<in> set adapters \<and>
   fetchOkxFunding nan_rate_world ''BTC/USDT:USDT'' =
     ([okx_request], Inr (Some nan_rate_record)) \<and>
   funding_rate nan_rate_record = NaN \<and> skew nan_rate_record = Some NaN \<and>
   \<not> js_ge NaN (Num (- 1)) \<and> \<not> js_ge (Num 1) NaN"
  by (simp add: nan_rate_example nan_rate_record_def adapters_def)

text \<open>
  C4 (amended). In every record an adapter produces, the skew is \<open>clamp(r / 0.1, -1, 1)\<close>
  of the record's funding rate \<open>r\<close>, where \<open>r / 0.1\<close> is the quotient of the two doubles,
  rounded to a double, an infinite quotient is clamped to the bound on its side, and \<open>NaN\<close>
  stays \<open>NaN\<close>. So the skew is a number within \<open>[-1, 1]\<close> whenever the rate is not \<open>NaN\<close>,
  and it is \<open>NaN\<close>, never \<open>null\<close>, when the rate is \<open>NaN\<close>; it is 0 for the rate 0, 1 for
  the rate 0.15 and \<open>-1\<close> for the rate \<open>-0.2\<close>.
\<close>

theorem skew_is_clamped_funding_rate:
  assumes "f \<in> set adapters"
    and "snd (f w mkt) = Inr (Some rec)"
  shows "skew rec =
           Some (clamp_number (js_div (funding_rate rec) (to_double (1 / 10))) (- 1) 1) \<and>
         (funding_rate rec \<noteq> NaN \<longrightarrow>
            (\<exists>s. skew rec = Some (Num s) \<and> - 1 \<le> s \<and> s \<le> 1)) \<and>
         (funding_rate rec = NaN \<longrightarrow> skew rec = Some NaN) \<and>
         (funding_rate rec = Num 0 \<longrightarrow> skew rec = Some (Num 0)) \<and>
         (funding_rate rec = to_double (15 / 100) \<longrightarrow> skew rec = Some (Num 1)) \<and>
         (funding_rate rec = to_double (- (2 / 10)) \<longrightarrow> skew rec = Some (Num (- 1)))"
proof -
  from adapter_skew [OF assms(1), of w mkt] assms(2)
  have s: "skew rec = Some (skew_of (funding_rate rec))"
    by (simp add: produces_only_def)
  have c1: "skew rec =
              Some (clamp_number (js_div (funding_rate rec) (to_double (1 / 10))) (- 1) 1)"
    using s by (simp add: skew_of_eq)
  have c2: "funding_rate rec \<noteq> NaN \<longrightarrow>
              (\<exists>s. skew rec = Some (Num s) \<and> - 1 \<le> s \<and> s \<le> 1)"
    using s skew_of_range [of "funding_rate rec"] by auto
  have c3: "funding_rate rec = NaN \<longrightarrow> skew rec = Some NaN"
  proof
    assume e: "funding_rate rec = NaN"
    show "skew rec = Some NaN"
      unfolding s e skew_of_examples by (rule refl)
  qed
  have c4: "funding_rate rec = Num 0 \<longrightarrow> skew rec = Some (Num 0)"
  proof
    assume e: "funding_rate rec = Num 0"
    show "skew rec = Some (Num 0)"
      unfolding s e skew_of_examples by (rule refl)
  qed
  have c5: "funding_rate rec = to_double (15 / 100) \<longrightarrow> skew rec = Some (Num 1)"
  proof
    assume e: "funding_rate rec = to_double (15 / 100)"
    show "skew rec = Some (Num 1)"
      unfolding s e skew_of_examples by (rule refl)
  qed
  have c6: "funding_rate rec = to_double (- (2 / 10)) \<longrightarrow> skew rec = Some (Num (- 1))"
  proof
    assume e: "funding_rate rec = to_double (- (2 / 10))"
    show "skew rec = Some (Num (- 1))"
      unfolding s e skew_of_examples by (rule refl)
  qed
  from c1 c2 c3 c4 c5 c6 show ?thesis
    by - (intro conjI, assumption+)
qed

theorem skew_is_clamped_funding_rate_witness:
  "fetchBinanceFunding \<in> set adapters \<and>
   snd (fetchBinanceFunding example_world ''BTC/USDT:USDT'') = Inr (Some binance_example_record) \<and>
   funding_rate binance_example_record = to_double (15 / 100) \<and>
   funding_rate binance_example_record \<noteq> NaN \<and>
   funding_rate binance_example_record \<noteq> Num 0 \<and>
   skew binance_example_record = Some (Num 1)"
proof -
  have a: "fetchBinanceFunding \<in> set adapters"
    by (simp add: adapters_def)
  have b: "snd (fetchBinanceFunding example_world ''BTC/USDT:USDT'') =
             Inr (Some binance_example_record)"
    by (simp add: binance_example)
  have c: "funding_rate binance_example_record = to_double (15 / 100)"
    by (simp add: binance_example_record_def)
  have d: "funding_rate binance_example_record \<noteq> NaN"
    unfolding c by (rule to_double_not_NaN)
  have "to_double (15 / 100) \<noteq> Num 0"
    by code_simp
  then have e: "funding_rate binance_example_record \<noteq> Num 0"
    unfolding c .
  from skew_is_clamped_funding_rate [OF a b]
  have "funding_rate binance_example_record = to_double (15 / 100) \<longrightarrow>
          skew binance_example_record = Some (Num 1)"
    by (elim conjE)
  with c have g: "skew binance_example_record = Some (Num 1)"
    by (rule_tac mp)
  from a b c d e g show ?thesis
    by - (intro conjI, assumption+)
qed



section \<open>Time to the next funding\<close>

lemma calculateTimeToNextFunding_nonneg_integer:
  "is_nonneg_integer (calculateTimeToNextFunding now)"
proof -
  have h: "0 \<le> getUTCHours now" "getUTCHours now < 24"
    using getUTCHours_range [of now] by simp_all
  have m: "0 \<le> getUTCMinutes now" "getUTCMinutes now < 60"
    using getUTCMinutes_range [of now] by simp_all
  have s: "0 \<le> getUTCSeconds now" "getUTCSeconds now < 60"
    using getUTCSeconds_range [of now] by simp_all
  from h m s show ?thesis
    by (simp add: calculateTimeToNextFunding_eq is_nonneg_integer_def)
qed

lemma calculator_adapters_time_to_next:
  assumes "f \<in> {fetchBinanceFunding, fetchBybitFunding, fetchHyperliquidFunding}"
  shows "produces_only (\<lambda>r. is_nonneg_integer (time_to_next r)) (f w mkt)"
proof -
  from assms consider "f = fetchBinanceFunding" | "f = fetchBybitFunding"
    | "f = fetchHyperliquidFunding"
    by auto
  then show ?thesis
  proof cases
    case 1
    show ?thesis unfolding 1 fetchBinanceFunding_def Let_def
      by (intro produces_only_intros) (simp add: calculateTimeToNextFunding_nonneg_integer)
  next
    case 2
    show ?thesis unfolding 2 fetchBybitFunding_def Let_def
      by (intro produces_only_intros) (simp add: calculateTimeToNextFunding_nonneg_integer)
  next
    case 3
    show ?thesis unfolding 3 fetchHyperliquidFunding_def Let_def
      by (intro produces_only_intros) (simp add: calculateTimeToNextFunding_nonneg_integer)
  qed
qed

text \<open>
  C1. The OKX adapter's \<open>time_to_next\<close> is the bare difference
  \<open>fundingTime / 1000 - Date.now() / 1000\<close>, neither floored nor held at 0. With the
  funding instant 6399.5 seconds ahead it is 6399.5, and a quarter of a second after the
  funding instant, while the venue still reports it, it is \<open>-0.25\<close>: neither is a
  non-negative integer. (The other three adapters take the calculator's value, which is.)
\<close>

theorem okx_time_to_next_not_nonneg_integer:
  "snd (fetchOkxFunding example_world ''BTC/USDT:USDT'') = Inr (Some okx_example_record) \<and>
   time_to_next okx_example_record = Num (12799 / 2) \<and>
   \<not> is_nonneg_integer (time_to_next okx_example_record) \<and>
   snd (fetchOkxFunding late_world ''BTC/USDT:USDT'') =
     Inr (Some (okx_example_record\<lparr>time_to_next := Num (- (1 / 4)),
                                    timestamp := 1700006400250\<rparr>)) \<and>
   \<not> is_nonneg_integer (Num (- (1 / 4)))"
proof -
  have "snd (fetchOkxFunding example_world ''BTC/USDT:USDT'') = Inr (Some okx_example_record)"
    by (simp add: okx_example)
  moreover have "time_to_next okx_example_record = Num (12799 / 2)"
    by (simp add: okx_example_record_def)
  moreover have "\<not> is_nonneg_integer (Num (12799 / 2))"
    by code_simp
  moreover have "snd (fetchOkxFunding late_world ''BTC/USDT:USDT'') =
     Inr (Some (okx_example_record\<lparr>time_to_next := Num (- (1 / 4)),
                                    timestamp := 1700006400250\<rparr>))"
    by code_simp
  moreover have "\<not> is_nonneg_integer (Num (- (1 / 4)))"
    by code_simp
  ultimately show ?thesis
    by simp
qed

section \<open>Registry, aggregator and entry point\<close>

lemma getSupportedVenues_eq:
  "getSupportedVenues = [''binance'', ''bybit'', ''okx'', ''hyperliquid'']"
  by (simp add: getSupportedVenues_def VENUE_CONFIG_def binance_config_def bybit_config_def
        okx_config_def hyperliquid_config_def)

lemma adapter_of_None: "adapter_of v = None \<longleftrightarrow> v \<notin> set getSupportedVenues"
  by (simp add: adapter_of_def getSupportedVenues_eq)

lemma push_task_eq:
  "push_task w v m tasks =
     tasks @ (case adapter_of v of None \<Rightarrow> [] | Some f \<Rightarrow> [f w m])"
  by (simp add: push_task_def adapter_of_def)

lemma push_markets_eq:
  "push_markets w v ms tasks =
     tasks @ (case adapter_of v of None \<Rightarrow> [] | Some f \<Rightarrow> map (f w) ms)"
  by (induction ms arbitrary: tasks) (simp_all add: push_task_eq split: option.split)

lemma push_venues_eq:
  "push_venues w vs ms tasks = tasks @ dispatched_calls w vs ms"
proof (induction vs arbitrary: tasks)
  case Nil
  show ?case by (simp add: dispatched_calls_def)
next
  case (Cons v vs)
  show ?case
  proof (cases "adapter_of v")
    case None
    then have "v \<notin> set getSupportedVenues" by (simp add: adapter_of_None)
    with None Cons show ?thesis by (simp add: dispatched_calls_def)
  next
    case (Some f)
    then have "v \<in> set getSupportedVenues"
      using adapter_of_None [of v] by simp
    with Some Cons show ?thesis by (simp add: dispatched_calls_def push_markets_eq)
  qed
qed

lemma fulfilled_values_settle:
  "fulfilled_values (map settle tasks) = non_null_records tasks"
proof (induction tasks)
  case Nil
  show ?case by (simp add: non_null_records_def)
next
  case (Cons t ts)
  then show ?case
    by (cases "snd t") (auto simp add: non_null_records_def settle_def split: option.split)
qed

lemma collect_eq:
  "io_bind (Promise_allSettled tasks) (\<lambda>results. io_return (fulfilled_values results)) =
     (concat (map fst tasks), Inr (non_null_records tasks))"
  by (simp add: Promise_allSettled_def io_bind_def io_return_def fulfilled_values_settle)

lemma fetchFundingData_eq:
  "fetchFundingData w vs ms =
     (concat (map fst (dispatched_calls w vs ms)),
      Inr (non_null_records (dispatched_calls w vs ms)))"
  using push_venues_eq [of w vs ms "[]"]
  by (simp add: fetchFundingData_def Let_def collect_eq)

lemma handler_valid:
  assumes "set (venue_ids inp) \<subseteq> set getSupportedVenues"
  shows "handler w inp =
           io_bind (fetchFundingData w (venue_ids inp) (markets inp)) (\<lambda>fundingData.
             if length fundingData = 0
             then io_throw (Error ''Failed to fetch funding data from any venue'')
             else io_return
                    \<lparr>total_markets = length fundingData,
                     out_markets = fundingData,
                     out_timestamp = clock w\<rparr>)"
proof -
  from assms have "filter (\<lambda>v. v \<notin> set getSupportedVenues) (venue_ids inp) = []"
    by (auto simp add: filter_empty_conv)
  then show ?thesis
    by (simp add: handler_def Let_def)
qed

lemma handler_invalid:
  assumes "\<not> set (venue_ids inp) \<subseteq> set getSupportedVenues"
  shows "handler w inp =
           ([], Inl (Error (''Venues not supported: '' @
                            join (filter (\<lambda>v. v \<notin> set getSupportedVenues) (venue_ids inp)) '', '' @
                            ''. Available: '' @ join getSupportedVenues '', '')))"
proof -
  from assms have "filter (\<lambda>v. v \<notin> set getSupportedVenues) (venue_ids inp) \<noteq> []"
    by (auto simp add: filter_empty_conv)
  then show ?thesis
    by (simp add: handler_def Let_def io_throw_def)
qed

lemma sublist_join: "v \<in> set xs \<Longrightarrow> sublist v (join xs sep)"
proof (induction xs sep rule: join.induct)
  case (1 sep)
  then show ?case by simp
next
  case (2 x sep)
  then show ?case by simp
next
  case (3 x y ys sep)
  show ?case
  proof (cases "v = x")
    case True
    then show ?thesis by (simp add: sublist_append_rightI)
  next
    case False
    with 3 have "sublist v (join (y # ys) sep)" by simp
    then have "sublist v (x @ sep @ join (y # ys) sep)"
      by (simp add: sublist_append)
    then show ?thesis by simp
  qed
qed

text \<open>
  C6. A request that names a venue outside \<open>binance\<close>, \<open>bybit\<close>, \<open>okx\<close>,
  \<open>hyperliquid\<close> fails before any request is sent to a venue: the entry point throws,
  whatever the world, with no network request made. The error message names every
  offending venue identifier and ends with the list of the supported ones.
\<close>

theorem unsupported_venue_fails_before_any_fetch:
  assumes "\<exists>v \<in> set (venue_ids inp). v \<notin> {''binance'', ''bybit'', ''okx'', ''hyperliquid''}"
  shows "\<exists>msg. handler w inp = ([], Inl (Error msg)) \<and>
           msg = ''Venues not supported: '' @
                 join (filter (\<lambda>v. v \<notin> set getSupportedVenues) (venue_ids inp)) '', '' @
                 ''. Available: binance, bybit, okx, hyperliquid'' \<and>
           (\<forall>v \<in> set (venue_ids inp).
              v \<notin> {''binance'', ''bybit'', ''okx'', ''hyperliquid''} \<longrightarrow> sublist v msg) \<and>
           suffix ''Available: binance, bybit, okx, hyperliquid'' msg"
proof -
  let ?bad = "filter (\<lambda>v. v \<notin> set getSupportedVenues) (venue_ids inp)"
  let ?msg = "''Venues not supported: '' @ join ?bad '', '' @
              ''. Available: binance, bybit, okx, hyperliquid''"
  from assms have "\<not> set (venue_ids inp) \<subseteq> set getSupportedVenues"
    by (auto simp add: getSupportedVenues_eq)
  from handler_invalid [OF this, of w] have h: "handler w inp = ([], Inl (Error ?msg))"
    by (simp add: getSupportedVenues_eq)
  have named: "sublist v ?msg"
    if "v \<in> set (venue_ids inp)" "v \<notin> {''binance'', ''bybit'', ''okx'', ''hyperliquid''}" for v
  proof -
    from that have "v \<in> set ?bad" by (simp add: getSupportedVenues_eq)
    then have "sublist v (join ?bad '', '')" by (rule sublist_join)
    then show ?thesis
      by (simp only: sublist_append) simp
  qed
  have "suffix ''Available: binance, bybit, okx, hyperliquid'' ?msg"
    by (simp add: suffix_def)
  with h named show ?thesis by blast
qed

theorem unsupported_venue_fails_before_any_fetch_witness:
  "(\<exists>v \<in> set [''binance'', ''dydx'']. v \<notin> {''binance'', ''bybit'', ''okx'', ''hyperliquid''}) \<and>
   handler example_world \<lparr>venue_ids = [''binance'', ''dydx''], markets = [''BTC/USDT:USDT'']\<rparr> =
     ([], Inl (Error ''Venues not supported: dydx. Available: binance, bybit, okx, hyperliquid''))"
proof -
  have a: "\<exists>v \<in> set (venue_ids \<lparr>venue_ids = [''binance'', ''dydx''],
                                  markets = [''BTC/USDT:USDT'']\<rparr>).
             v \<notin> {''binance'', ''bybit'', ''okx'', ''hyperliquid''}"
    by simp
  from unsupported_venue_fails_before_any_fetch [OF a, of example_world] show ?thesis
    by (simp add: getSupportedVenues_eq)
qed

lemma binance_down:
  "fetchBinanceFunding binance_down_world ''BTC/USDT:USDT'' = ([binance_premium_request], Inr None)"
  by code_simp

lemma bybit_binance_down:
  "fetchBybitFunding binance_down_world ''BTC/USDT:USDT'' =
     ([bybit_request], Inr (Some bybit_example_record))"
  by code_simp

lemma binance_all_down:
  "fetchBinanceFunding all_down_world ''BTC/USDT:USDT'' = ([binance_premium_request], Inr None)"
  by code_simp

text \<open>
  C7. The aggregator returns exactly the records of the adapter calls it dispatched that
  returned one, and never throws: a call that returned \<open>null\<close>, or one that rejected,
  contributes nothing and stops no other call. Over supported venues the response carries
  these records and their count as \<open>total_markets\<close>, whenever there is at least one.
  With Binance failing and Bybit succeeding on one market the response succeeds with
  \<open>total_markets = 1\<close>; with both succeeding, \<open>total_markets = 2\<close>.
\<close>

theorem aggregator_keeps_the_non_null_records:
  assumes "set (venue_ids inp) \<subseteq> set getSupportedVenues"
  shows "snd (fetchFundingData w (venue_ids inp) (markets inp)) =
           Inr (non_null_records (dispatched_calls w (venue_ids inp) (markets inp))) \<and>
         (\<forall>tasks.
            snd (io_bind (Promise_allSettled tasks)
                   (\<lambda>results. io_return (fulfilled_values results))) =
              Inr (non_null_records tasks)) \<and>
         (non_null_records (dispatched_calls w (venue_ids inp) (markets inp)) \<noteq> [] \<longrightarrow>
            snd (handler w inp) =
              Inr \<lparr>total_markets =
                     length (non_null_records
                               (dispatched_calls w (venue_ids inp) (markets inp))),
                   out_markets =
                     non_null_records (dispatched_calls w (venue_ids inp) (markets inp)),
                   out_timestamp = clock w\<rparr>) \<and>
         (\<forall>m r. venue_ids inp = [''binance'', ''bybit''] \<and> markets inp = [m] \<and>
                snd (fetchBinanceFunding w m) = Inr None \<and>
                snd (fetchBybitFunding w m) = Inr (Some r) \<longrightarrow>
                snd (handler w inp) =
                  Inr \<lparr>total_markets = 1, out_markets = [r], out_timestamp = clock w\<rparr>) \<and>
         (\<forall>m r1 r2. venue_ids inp = [''binance'', ''bybit''] \<and> markets inp = [m] \<and>
                snd (fetchBinanceFunding w m) = Inr (Some r1) \<and>
                snd (fetchBybitFunding w m) = Inr (Some r2) \<longrightarrow>
                snd (handler w inp) =
                  Inr \<lparr>total_markets = 2, out_markets = [r1, r2], out_timestamp = clock w\<rparr>)"
proof -
  let ?rs = "non_null_records (dispatched_calls w (venue_ids inp) (markets inp))"
  have agg: "snd (fetchFundingData w (venue_ids inp) (markets inp)) = Inr ?rs"
    by (simp add: fetchFundingData_eq)
  have coll: "\<forall>tasks.
            snd (io_bind (Promise_allSettled tasks)
                   (\<lambda>results. io_return (fulfilled_values results))) =
              Inr (non_null_records tasks)"
    by (simp add: collect_eq)
  have resp: "snd (handler w inp) =
      (if ?rs = [] then Inl (Error ''Failed to fetch funding data from any venue'')
       else Inr \<lparr>total_markets = length ?rs, out_markets = ?rs, out_timestamp = clock w\<rparr>)"
    by (simp add: handler_valid [OF assms] snd_io_bind agg io_throw_def io_return_def)
  have one: "snd (handler w inp) =
                  Inr \<lparr>total_markets = 1, out_markets = [r], out_timestamp = clock w\<rparr>"
    if "venue_ids inp = [''binance'', ''bybit'']" "markets inp = [m]"
       "snd (fetchBinanceFunding w m) = Inr None" "snd (fetchBybitFunding w m) = Inr (Some r)"
    for m r
  proof -
    from that have "?rs = [r]"
      by (simp add: dispatched_calls_def adapter_of_def non_null_records_def)
    with resp show ?thesis by simp
  qed
  have two: "snd (handler w inp) =
                  Inr \<lparr>total_markets = 2, out_markets = [r1, r2], out_timestamp = clock w\<rparr>"
    if "venue_ids inp = [''binance'', ''bybit'']" "markets inp = [m]"
       "snd (fetchBinanceFunding w m) = Inr (Some r1)"
       "snd (fetchBybitFunding w m) = Inr (Some r2)"
    for m r1 r2
  proof -
    from that have "?rs = [r1, r2]"
      by (simp add: dispatched_calls_def adapter_of_def non_null_records_def)
    with resp show ?thesis by simp
  qed
  have some: "?rs \<noteq> [] \<longrightarrow>
            snd (handler w inp) =
              Inr \<lparr>total_markets = length ?rs, out_markets = ?rs, out_timestamp = clock w\<rparr>"
    using resp by simp
  have one': "\<forall>m r. venue_ids inp = [''binance'', ''bybit''] \<and> markets inp = [m] \<and>
                snd (fetchBinanceFunding w m) = Inr None \<and>
                snd (fetchBybitFunding w m) = Inr (Some r) \<longrightarrow>
                snd (handler w inp) =
                  Inr \<lparr>total_markets = 1, out_markets = [r], out_timestamp = clock w\<rparr>"
    using one by blast
  have two': "\<forall>m r1 r2. venue_ids inp = [''binance'', ''bybit''] \<and> markets inp = [m] \<and>
                snd (fetchBinanceFunding w m) = Inr (Some r1) \<and>
                snd (fetchBybitFunding w m) = Inr (Some r2) \<longrightarrow>
                snd (handler w inp) =
                  Inr \<lparr>total_markets = 2, out_markets = [r1, r2], out_timestamp = clock w\<rparr>"
    using two by blast
  from agg coll some one' two' show ?thesis
    by - (intro conjI, assumption+)
qed

theorem aggregator_keeps_the_non_null_records_witness:
  "set [''binance'', ''bybit''] \<subseteq> set getSupportedVenues \<and>
   snd (fetchBinanceFunding binance_down_world ''BTC/USDT:USDT'') = Inr None \<and>
   snd (fetchBybitFunding binance_down_world ''BTC/USDT:USDT'') =
     Inr (Some bybit_example_record) \<and>
   snd (handler binance_down_world
          \<lparr>venue_ids = [''binance'', ''bybit''], markets = [''BTC/USDT:USDT'']\<rparr>) =
     Inr \<lparr>total_markets = 1, out_markets = [bybit_example_record],
          out_timestamp = 1700000000500\<rparr> \<and>
   snd (handler example_world
          \<lparr>venue_ids = [''binance'', ''bybit''], markets = [''BTC/USDT:USDT'']\<rparr>) =
     Inr \<lparr>total_markets = 2, out_markets = [binance_example_record, bybit_example_record],
          out_timestamp = 1700000000500\<rparr>"
proof -
  let ?inp = "\<lparr>venue_ids = [''binance'', ''bybit''], markets = [''BTC/USDT:USDT'']\<rparr>"
  have a: "set (venue_ids ?inp) \<subseteq> set getSupportedVenues"
    by (simp add: getSupportedVenues_eq)
  have b: "snd (fetchBinanceFunding binance_down_world ''BTC/USDT:USDT'') = Inr None"
    by (simp add: binance_down)
  have c: "snd (fetchBybitFunding binance_down_world ''BTC/USDT:USDT'') =
             Inr (Some bybit_example_record)"
    by (simp add: bybit_binance_down)
  have d: "snd (fetchBinanceFunding example_world ''BTC/USDT:USDT'') =
             Inr (Some binance_example_record)"
    by (simp add: binance_example)
  have e: "snd (fetchBybitFunding example_world ''BTC/USDT:USDT'') =
             Inr (Some bybit_example_record)"
    by (simp add: bybit_example)
  have ck: "clock binance_down_world = 1700000000500" "clock example_world = 1700000000500"
    by (simp_all add: binance_down_world_def example_world_def)
  from aggregator_keeps_the_non_null_records [OF a, of binance_down_world] b c ck
  have one: "snd (handler binance_down_world ?inp) =
     Inr \<lparr>total_markets = 1, out_markets = [bybit_example_record],
          out_timestamp = 1700000000500\<rparr>"
    by simp
  from aggregator_keeps_the_non_null_records [OF a, of example_world] d e ck
  have two: "snd (handler example_world ?inp) =
     Inr \<lparr>total_markets = 2, out_markets = [binance_example_record, bybit_example_record],
          out_timestamp = 1700000000500\<rparr>"
    by simp
  from a b c one two show ?thesis by simp
qed

text \<open>
  C5 (as stated: an error exactly when no record was produced although at least one
  venue/market pair was requested, told apart from a request for nothing). With no venue
  and no market requested the entry point throws all the same, and what it throws is the
  very error of a total failure.
\<close>

theorem empty_request_fails_like_total_failure_counterexample:
  "handler example_world \<lparr>venue_ids = [], markets = []\<rparr> =
     ([], Inl (Error ''Failed to fetch funding data from any venue'')) \<and>
   handler all_down_world \<lparr>venue_ids = [''binance''], markets = [''BTC/USDT:USDT'']\<rparr> =
     ([binance_premium_request], Inl (Error ''Failed to fetch funding data from any venue''))"
proof -
  have "handler example_world \<lparr>venue_ids = [], markets = []\<rparr> =
     ([], Inl (Error ''Failed to fetch funding data from any venue''))"
    by (simp add: handler_def Let_def fetchFundingData_eq dispatched_calls_def
          non_null_records_def io_bind_def io_throw_def)
  moreover
  have "set (venue_ids \<lparr>venue_ids = [''binance''], markets = [''BTC/USDT:USDT'']\<rparr>)
          \<subseteq> set getSupportedVenues"
    by (simp add: getSupportedVenues_eq)
  then have "handler all_down_world \<lparr>venue_ids = [''binance''], markets = [''BTC/USDT:USDT'']\<rparr> =
     ([binance_premium_request], Inl (Error ''Failed to fetch funding data from any venue''))"
    by (simp add: handler_valid fetchFundingData_eq dispatched_calls_def adapter_of_def
          non_null_records_def binance_all_down io_bind_def io_throw_def)
  ultimately show ?thesis by simp
qed

text \<open>
  C5 (amended). Over supported venues the entry point throws exactly when the aggregator
  produced no record, whether or not any venue/market pair was requested; otherwise it
  returns the records with their count. A request with no venue or no market therefore
  throws the same error as a total failure.
\<close>

theorem response_fails_iff_no_record:
  assumes "set (venue_ids inp) \<subseteq> set getSupportedVenues"
    and "snd (fetchFundingData w (venue_ids inp) (markets inp)) = Inr fundingData"
  shows "(fundingData = [] \<longrightarrow>
            snd (handler w inp) = Inl (Error ''Failed to fetch funding data from any venue'')) \<and>
         (fundingData \<noteq> [] \<longrightarrow>
            snd (handler w inp) =
              Inr \<lparr>total_markets = length fundingData, out_markets = fundingData,
                   out_timestamp = clock w\<rparr>) \<and>
         (venue_ids inp = [] \<or> markets inp = [] \<longrightarrow> fundingData = [])"
proof -
  have "snd (handler w inp) =
      (if fundingData = [] then Inl (Error ''Failed to fetch funding data from any venue'')
       else Inr \<lparr>total_markets = length fundingData, out_markets = fundingData,
                 out_timestamp = clock w\<rparr>)"
    by (simp add: handler_valid [OF assms(1)] snd_io_bind assms(2) io_throw_def io_return_def)
  moreover have "fundingData = []" if "venue_ids inp = [] \<or> markets inp = []"
  proof -
    have "dispatched_calls w (venue_ids inp) (markets inp) = []"
      using that by (auto simp add: dispatched_calls_def split: option.split)
    with assms(2) show ?thesis
      by (simp add: fetchFundingData_eq non_null_records_def)
  qed
  ultimately show ?thesis by simp
qed

theorem response_fails_iff_no_record_witness:
  "set [''binance''] \<subseteq> set getSupportedVenues \<and>
   snd (fetchFundingData all_down_world [''binance''] [''BTC/USDT:USDT'']) = Inr [] \<and>
   snd (handler all_down_world \<lparr>venue_ids = [''binance''], markets = [''BTC/USDT:USDT'']\<rparr>) =
     Inl (Error ''Failed to fetch funding data from any venue'')"
proof -
  let ?inp = "\<lparr>venue_ids = [''binance''], markets = [''BTC/USDT:USDT'']\<rparr>"
  have a: "set (venue_ids ?inp) \<subseteq> set getSupportedVenues"
    by (simp add: getSupportedVenues_eq)
  have b: "snd (fetchFundingData all_down_world (venue_ids ?inp) (markets ?inp)) = Inr []"
    by (simp add: fetchFundingData_eq dispatched_calls_def adapter_of_def
          non_null_records_def binance_all_down)
  from response_fails_iff_no_record [OF a b] a b show ?thesis by simp
qed

section \<open>Adapters never raise\<close>

lemma quiet_return: "quiet (io_return x)"
  by (simp add: quiet_def io_return_def)

lemma quiet_lift: "quiet (io_lift r)"
  by (simp add: quiet_def io_lift_def)

lemma quiet_json: "quiet (json r)"
  by (simp add: json_def quiet_lift)

lemma quiet_bind: "quiet m \<Longrightarrow> (\<And>x. quiet (f x)) \<Longrightarrow> quiet (io_bind m f)"
  by (simp add: quiet_def fst_io_bind split: sum.split)

lemma quiet_if: "quiet a \<Longrightarrow> quiet b \<Longrightarrow> quiet (if c then a else b)"
  by simp

lemmas quiet_intros = quiet_bind quiet_if quiet_return quiet_lift quiet_json

lemma fetch_bind:
  "io_bind (fetch w req) k =
     (case http w req of
        Failed \<Rightarrow> ([req], Inl FetchError)
      | Answered r \<Rightarrow> (req # fst (k r), snd (k r)))"
  by (simp add: io_bind_def fetch_def split: outcome.split prod.split)

lemma json_bind:
  "io_bind (json r) k = (case body r of None \<Rightarrow> ([], Inl SyntaxError) | Some v \<Rightarrow> k v)"
  by (simp add: io_bind_def json_def io_lift_def split: option.split prod.split)

lemma lift_bind:
  "io_bind (io_lift x) k = (case x of Inl e \<Rightarrow> ([], Inl e) | Inr v \<Rightarrow> k v)"
  by (simp add: io_bind_def io_lift_def split: sum.split prod.split)

lemma return_bind: "io_bind (io_return x) k = k x"
  by (simp add: io_bind_def io_return_def split: prod.split)

lemma catch_pair:
  "io_catch (l, r) (\<lambda>error. io_return None) =
     (l, Inr (case r of Inl e \<Rightarrow> None | Inr v \<Rightarrow> v))"
  by (simp add: io_catch_def io_return_def split: sum.split)

lemma single_request_adapter:
  assumes q: "\<And>d. quiet (K d)"
    and n: "\<exists>e. snd (K JNull) = Inl e"
    and s: "\<And>d. Q d (case snd (K d) of Inl e \<Rightarrow> None | Inr x \<Rightarrow> x)"
  shows "\<exists>r rest v. io_catch
                (io_bind (fetch w req) (\<lambda>response.
                   if \<not> ok response then io_return None
                   else io_bind (json response) K))
                (\<lambda>error. io_return None) = (r # rest, Inr v) \<and>
              (\<forall>q \<in> set (r # rest). http w q = Failed \<longrightarrow> v = None) \<and>
              (\<forall>q \<in> set (r # rest). http w q = Answered (Response True None) \<longrightarrow> v = None) \<and>
              (\<forall>b. http w r = Answered (Response False b) \<longrightarrow> v = None) \<and>
              (http w r = Answered (Response True (Some JNull)) \<longrightarrow> v = None) \<and>
              (\<forall>d. http w r = Answered (Response True (Some d)) \<longrightarrow> Q d v)"
proof (cases "http w req")
  case Failed
  then show ?thesis
    by (simp add: fetch_bind catch_pair)
next
  case (Answered r)
  obtain okr b where r: "r = Response okr b" by (cases r)
  show ?thesis
  proof (cases okr)
    case False
    with Answered r show ?thesis
      by (simp add: fetch_bind catch_pair fst_io_return snd_io_return)
  next
    case True
    show ?thesis
    proof (cases b)
      case None
      with Answered r True show ?thesis
        by (simp add: fetch_bind json_bind catch_pair)
    next
      case (Some d)
      from q [of d] have "fst (K d) = []" by (simp add: quiet_def)
      with Answered r True Some n s [of d] show ?thesis
        by (auto simp add: fetch_bind json_bind catch_pair)
    qed
  qed
qed

lemma two_request_adapter:
  assumes q: "\<And>d oiData. quiet (T d oiData)"
    and n: "\<And>oiData. \<exists>e. snd (T JNull oiData) = Inl e"
  shows "\<exists>r rest v. io_catch
                (io_bind (fetch w req) (\<lambda>response.
                   if \<not> ok response then io_return None
                   else io_bind (json response) (\<lambda>data.
                        io_bind (fetch w req2) (\<lambda>oiResponse.
                        io_bind (if ok oiResponse then json oiResponse
                                 else io_return (JObj [])) (\<lambda>oiData. T data oiData)))))
                (\<lambda>error. io_return None) = (r # rest, Inr v) \<and>
              (\<forall>q \<in> set (r # rest). http w q = Failed \<longrightarrow> v = None) \<and>
              (\<forall>q \<in> set (r # rest). http w q = Answered (Response True None) \<longrightarrow> v = None) \<and>
              (\<forall>b. http w r = Answered (Response False b) \<longrightarrow> v = None) \<and>
              (http w r = Answered (Response True (Some JNull)) \<longrightarrow> v = None)"
proof (cases "http w req")
  case Failed
  then show ?thesis
    by (simp add: fetch_bind catch_pair)
next
  case (Answered r)
  obtain okr b where r: "r = Response okr b" by (cases r)
  show ?thesis
  proof (cases okr)
    case False
    with Answered r show ?thesis
      by (simp add: fetch_bind catch_pair fst_io_return snd_io_return)
  next
    case True
    show ?thesis
    proof (cases b)
      case None
      with Answered r True show ?thesis
        by (simp add: fetch_bind json_bind catch_pair)
    next
      case (Some d)
      note first = Answered r True Some
      show ?thesis
      proof (cases "http w req2")
        case Failed
        with first show ?thesis
          by (auto simp add: fetch_bind json_bind catch_pair)
      next
        case (Answered r2)
        obtain ok2 b2 where r2: "r2 = Response ok2 b2" by (cases r2)
        show ?thesis
        proof (cases ok2)
          case False
          from q [of d "JObj []"] have "fst (T d (JObj [])) = []" by (simp add: quiet_def)
          with first Answered r2 False n [of "JObj []"] show ?thesis
            by (auto simp add: fetch_bind json_bind return_bind catch_pair)
        next
          case True
          show ?thesis
          proof (cases b2)
            case None
            with first Answered r2 True show ?thesis
              by (auto simp add: fetch_bind json_bind catch_pair)
          next
            case (Some oiData)
            from q [of d oiData] have "fst (T d oiData) = []" by (simp add: quiet_def)
            with first Answered r2 True Some n [of oiData] show ?thesis
              by (auto simp add: fetch_bind json_bind catch_pair)
          qed
        qed
      qed
    qed
  qed
qed

lemma binance_contract:
  "\<exists>r rest v. fetchBinanceFunding w mkt = (r # rest, Inr v) \<and>
              (\<forall>q \<in> set (r # rest). http w q = Failed \<longrightarrow> v = None) \<and>
              (\<forall>q \<in> set (r # rest). http w q = Answered (Response True None) \<longrightarrow> v = None) \<and>
              (\<forall>b. http w r = Answered (Response False b) \<longrightarrow> v = None) \<and>
              (http w r = Answered (Response True (Some JNull)) \<longrightarrow> v = None)"
  unfolding fetchBinanceFunding_def Let_def
  apply (rule two_request_adapter)
   apply (intro quiet_intros)
  apply (simp add: lift_bind)
  done

lemma bybit_contract:
  "\<exists>r rest v. fetchBybitFunding w mkt = (r # rest, Inr v) \<and>
              (\<forall>q \<in> set (r # rest). http w q = Failed \<longrightarrow> v = None) \<and>
              (\<forall>q \<in> set (r # rest). http w q = Answered (Response True None) \<longrightarrow> v = None) \<and>
              (\<forall>b. http w r = Answered (Response False b) \<longrightarrow> v = None) \<and>
              (http w r = Answered (Response True (Some JNull)) \<longrightarrow> v = None) \<and>
              (\<forall>d. http w r = Answered (Response True (Some d)) \<longrightarrow>
                     (get_prop d ''retCode'' \<noteq> Inr (JNum 0) \<longrightarrow> v = None))"
  unfolding fetchBybitFunding_def Let_def
  apply (rule single_request_adapter)
    apply (intro quiet_intros)
   apply (simp add: lift_bind)
  subgoal for d
    by (cases "get_prop d ''retCode''") (simp_all add: lift_bind snd_io_return)
  done

lemma okx_contract:
  "\<exists>r rest v. fetchOkxFunding w mkt = (r # rest, Inr v) \<and>
              (\<forall>q \<in> set (r # rest). http w q = Failed \<longrightarrow> v = None) \<and>
              (\<forall>q \<in> set (r # rest). http w q = Answered (Response True None) \<longrightarrow> v = None) \<and>
              (\<forall>b. http w r = Answered (Response False b) \<longrightarrow> v = None) \<and>
              (http w r = Answered (Response True (Some JNull)) \<longrightarrow> v = None) \<and>
              (\<forall>d. http w r = Answered (Response True (Some d)) \<longrightarrow>
                     (get_prop d ''code'' \<noteq> Inr (JStr ''0'') \<longrightarrow> v = None))"
  unfolding fetchOkxFunding_def Let_def
  apply (rule single_request_adapter)
    apply (intro quiet_intros)
   apply (simp add: lift_bind)
  subgoal for d
    by (cases "get_prop d ''code''") (simp_all add: lift_bind snd_io_return)
  done

lemma findIndex_name_not_found:
  "\<forall>u \<in> set us. get_prop u ''name'' \<noteq> Inr (JStr symbol)
     \<Longrightarrow> findIndex_name symbol us i = Inr (- 1) \<or> (\<exists>e. findIndex_name symbol us i = Inl e)"
proof (induction us arbitrary: i)
  case Nil
  show ?case by simp
next
  case (Cons u us)
  then show ?case
    by (cases "get_prop u ''name''") auto
qed

lemma hyperliquid_contract:
  "\<exists>r rest v. fetchHyperliquidFunding w mkt = (r # rest, Inr v) \<and>
              (\<forall>q \<in> set (r # rest). http w q = Failed \<longrightarrow> v = None) \<and>
              (\<forall>q \<in> set (r # rest). http w q = Answered (Response True None) \<longrightarrow> v = None) \<and>
              (\<forall>b. http w r = Answered (Response False b) \<longrightarrow> v = None) \<and>
              (http w r = Answered (Response True (Some JNull)) \<longrightarrow> v = None) \<and>
              (\<forall>d. http w r = Answered (Response True (Some d)) \<longrightarrow>
                     (\<forall>d0 us. get_index d 0 = Inr d0 \<and> opt_get d0 ''universe'' = Inr (JArr us) \<and>
                        (\<forall>u \<in> set us. get_prop u ''name'' \<noteq>
                           Inr (JStr (case split mkt (CHR ''/'') of x # _ \<Rightarrow> x | [] \<Rightarrow> [])))
                        \<longrightarrow> v = None))"
  unfolding fetchHyperliquidFunding_def Let_def
  apply (rule single_request_adapter)
    apply (intro quiet_intros)
   apply (simp add: lift_bind get_index_def)
  subgoal for d
    apply (intro allI impI)
    apply (elim conjE)
    subgoal for d0 us
      using findIndex_name_not_found
              [of us "case split mkt (CHR ''/'') of x # _ \<Rightarrow> x | [] \<Rightarrow> []" 0]
      by (auto simp add: lift_bind opt_findIndex_def snd_io_return)
    done
  done

text \<open>
  C8 (as stated: any transport error, non-success status or malformed payload gives
  \<open>null\<close>). Binance's open-interest request answered with an error status does not give
  \<open>null\<close>: the record is produced, with open interest 0. Nor does a payload that lacks
  every field the adapter reads: the empty object gives a record of zeros.
\<close>

theorem non_success_status_gives_record_counterexample:
  "http oi_down_world binance_oi_request =
     Answered (Response False
       (Some (JObj [(''code'', JNum (- 1003)), (''msg'', JStr ''Too many requests.'')]))) \<and>
   fetchBinanceFunding oi_down_world ''BTC/USDT:USDT'' =
     ([binance_premium_request, binance_oi_request],
      Inr (Some (binance_example_record\<lparr>open_interest := Num 0\<rparr>))) \<and>
   fetchBinanceFunding empty_payload_world ''BTC/USDT:USDT'' =
     ([binance_premium_request, binance_oi_request],
      Inr (Some \<lparr>venue = ''binance'', market = ''BTC/USDT:USDT'', funding_rate = Num 0,
                 time_to_next = Num 6400, open_interest = Num 0, skew = Some (Num 0),
                 mark_price = Some (Num 0), index_price = Some (Num 0),
                 timestamp = 1700000000500\<rparr>))"
proof -
  have "http oi_down_world binance_oi_request =
     Answered (Response False
       (Some (JObj [(''code'', JNum (- 1003)), (''msg'', JStr ''Too many requests.'')])))"
    by (simp add: oi_down_world_def)
  moreover have "fetchBinanceFunding oi_down_world ''BTC/USDT:USDT'' =
     ([binance_premium_request, binance_oi_request],
      Inr (Some (binance_example_record\<lparr>open_interest := Num 0\<rparr>)))"
    by code_simp
  moreover have "fetchBinanceFunding empty_payload_world ''BTC/USDT:USDT'' =
     ([binance_premium_request, binance_oi_request],
      Inr (Some \<lparr>venue = ''binance'', market = ''BTC/USDT:USDT'', funding_rate = Num 0,
                 time_to_next = Num 6400, open_interest = Num 0, skew = Some (Num 0),
                 mark_price = Some (Num 0), index_price = Some (Num 0),
                 timestamp = 1700000000500\<rparr>))"
    by code_simp
  ultimately show ?thesis by simp
qed

text \<open>
  C8 (amended). No adapter raises past its boundary: for every world and market its call
  sends a first request and ends with a record or \<open>null\<close>. It ends with \<open>null\<close> when
  any request it sent failed in transport or was answered with a success status and a body
  that is not JSON, and when its first request was answered with a non-success status or
  with the JSON value \<open>null\<close>; for Bybit also when \<open>retCode\<close> is not the number 0,
  for OKX when \<open>code\<close> is not the string \<open>0\<close>, for Hyperliquid when no entry of the
  universe carries the asset's name.
\<close>

theorem adapter_never_raises:
  assumes "f \<in> set adapters"
  shows "(\<exists>r rest v. f w mkt = (r # rest, Inr v) \<and>
            (\<forall>q \<in> set (r # rest). http w q = Failed \<longrightarrow> v = None) \<and>
            (\<forall>q \<in> set (r # rest). http w q = Answered (Response True None) \<longrightarrow> v = None) \<and>
            (\<forall>b. http w r = Answered (Response False b) \<longrightarrow> v = None) \<and>
            (http w r = Answered (Response True (Some JNull)) \<longrightarrow> v = None)) \<and>
         (\<forall>r rest v d.
            fetchBybitFunding w mkt = (r # rest, Inr v) \<and>
            http w r = Answered (Response True (Some d)) \<and>
            get_prop d ''retCode'' \<noteq> Inr (JNum 0) \<longrightarrow> v = None) \<and>
         (\<forall>r rest v d.
            fetchOkxFunding w mkt = (r # rest, Inr v) \<and>
            http w r = Answered (Response True (Some d)) \<and>
            get_prop d ''code'' \<noteq> Inr (JStr ''0'') \<longrightarrow> v = None) \<and>
         (\<forall>r rest v d d0 us.
            fetchHyperliquidFunding w mkt = (r # rest, Inr v) \<and>
            http w r = Answered (Response True (Some d)) \<and>
            get_index d 0 = Inr d0 \<and> opt_get d0 ''universe'' = Inr (JArr us) \<and>
            (\<forall>u \<in> set us. get_prop u ''name'' \<noteq>
               Inr (JStr (case split mkt (CHR ''/'') of x # _ \<Rightarrow> x | [] \<Rightarrow> [])))
            \<longrightarrow> v = None)"
proof -
  have generic: "\<exists>r rest v. f w mkt = (r # rest, Inr v) \<and>
            (\<forall>q \<in> set (r # rest). http w q = Failed \<longrightarrow> v = None) \<and>
            (\<forall>q \<in> set (r # rest). http w q = Answered (Response True None) \<longrightarrow> v = None) \<and>
            (\<forall>b. http w r = Answered (Response False b) \<longrightarrow> v = None) \<and>
            (http w r = Answered (Response True (Some JNull)) \<longrightarrow> v = None)"
    using assms
  proof (cases rule: adapter_cases)
    case 1
    with binance_contract [of w mkt] show ?thesis by simp
  next
    case 2
    from bybit_contract [of w mkt] show ?thesis unfolding 2 by blast
  next
    case 3
    from okx_contract [of w mkt] show ?thesis unfolding 3 by blast
  next
    case 4
    from hyperliquid_contract [of w mkt] show ?thesis unfolding 4 by blast
  qed
  have bybit: "\<forall>r rest v d.
            fetchBybitFunding w mkt = (r # rest, Inr v) \<and>
            http w r = Answered (Response True (Some d)) \<and>
            get_prop d ''retCode'' \<noteq> Inr (JNum 0) \<longrightarrow> v = None"
    using bybit_contract [of w mkt] by auto
  have okx: "\<forall>r rest v d.
            fetchOkxFunding w mkt = (r # rest, Inr v) \<and>
            http w r = Answered (Response True (Some d)) \<and>
            get_prop d ''code'' \<noteq> Inr (JStr ''0'') \<longrightarrow> v = None"
    using okx_contract [of w mkt] by auto
  have hyperliquid: "\<forall>r rest v d d0 us.
            fetchHyperliquidFunding w mkt = (r # rest, Inr v) \<and>
            http w r = Answered (Response True (Some d)) \<and>
            get_index d 0 = Inr d0 \<and> opt_get d0 ''universe'' = Inr (JArr us) \<and>
            (\<forall>u \<in> set us. get_prop u ''name'' \<noteq>
               Inr (JStr (case split mkt (CHR ''/'') of x # _ \<Rightarrow> x | [] \<Rightarrow> [])))
            \<longrightarrow> v = None"
    using hyperliquid_contract [of w mkt] by auto
  from generic bybit okx hyperliquid show ?thesis
    by - (intro conjI, assumption+)
qed

theorem adapter_never_raises_witness:
  "fetchBinanceFunding \<in> set adapters \<and>
   http binance_down_world binance_premium_request = Failed \<and>
   fetchBinanceFunding binance_down_world ''BTC/USDT:USDT'' =
     ([binance_premium_request], Inr None)"
proof -
  have a: "fetchBinanceFunding \<in> set adapters"
    by (simp add: adapters_def)
  have b: "http binance_down_world binance_premium_request = Failed"
    by (simp add: binance_down_world_def)
  from adapter_never_raises [OF a, of binance_down_world "''BTC/USDT:USDT''"]
  have "\<exists>r rest v.
          fetchBinanceFunding binance_down_world ''BTC/USDT:USDT'' = (r # rest, Inr v) \<and>
          (\<forall>q \<in> set (r # rest). http binance_down_world q = Failed \<longrightarrow> v = None) \<and>
          (\<forall>q \<in> set (r # rest).
             http binance_down_world q = Answered (Response True None) \<longrightarrow> v = None) \<and>
          (\<forall>b. http binance_down_world r = Answered (Response False b) \<longrightarrow> v = None) \<and>
          (http binance_down_world r = Answered (Response True (Some JNull)) \<longrightarrow> v = None)"
    by (rule conjunct1)
  then obtain r rest v where
    run: "fetchBinanceFunding binance_down_world ''BTC/USDT:USDT'' = (r # rest, Inr v)"
    and failed: "\<forall>q \<in> set (r # rest). http binance_down_world q = Failed \<longrightarrow> v = None"
    by (elim exE conjE)
  from run have r: "r = binance_premium_request" and rest: "rest = []"
    by (simp_all add: binance_down)
  from failed r b have "v = None" by simp
  with run r rest a b show ?thesis by simp
qed

section \<open>Open interest\<close>

lemma snd_fetch: "snd (fetch w req) = Inr r \<longleftrightarrow> http w req = Answered r"
  by (simp add: fetch_def split: outcome.split)

lemma snd_json: "snd (json r) = Inr d \<longleftrightarrow> body r = Some d"
  by (simp add: json_def io_lift_def split: option.split)

lemma produces_only_bind_result:
  "(\<And>x. snd m = Inr x \<Longrightarrow> produces_only P (f x)) \<Longrightarrow> produces_only P (io_bind m f)"
  by (simp add: produces_only_def snd_io_bind split: sum.splits)

lemmas produces_only_result_intros =
  produces_only_catch produces_only_bind_result produces_only_if produces_only_return_None
  produces_only_return_Some

lemma every_object_get_prop:
  assumes "every_object Q v" and "get_prop v k = Inr x"
  shows "every_object Q x"
proof (cases v)
  case (JObj kvs)
  show ?thesis
  proof (cases "map_of kvs k")
    case None
    with JObj assms(2) show ?thesis by auto
  next
    case (Some y)
    then have "(k, y) \<in> set kvs" by (rule map_of_SomeD)
    with JObj assms(1) have "every_object Q y"
      by (auto simp add: list_all_iff)
    with JObj assms(2) Some show ?thesis by auto
  qed
next
  case (JArr xs)
  with assms show ?thesis
    by (auto simp add: list_all_length split: if_splits option.splits)
next
  case (JStr s)
  with assms show ?thesis
    by (auto split: if_splits option.splits)
qed (use assms in auto)

lemma opt_get_cases: "opt_get v k = Inr x \<Longrightarrow> x = JUndefined \<or> get_prop v k = Inr x"
  by (cases v) (simp_all add: opt_get_def)

lemma every_object_opt_get:
  assumes "every_object Q v" and "opt_get v k = Inr x"
  shows "every_object Q x"
proof -
  from opt_get_cases [OF assms(2)] show ?thesis
  proof
    assume "x = JUndefined"
    then show ?thesis by simp
  next
    assume "get_prop v k = Inr x"
    with assms(1) show ?thesis by (rule every_object_get_prop)
  qed
qed

lemma every_object_get_index:
  "every_object Q v \<Longrightarrow> get_index v i = Inr x \<Longrightarrow> every_object Q x"
  by (auto simp add: get_index_def dest: every_object_get_prop)

lemma array_index_openInterest: "array_index ''openInterest'' = None"
  by (simp add: array_index_def is_digit_def)

lemma array_index_markPrice: "array_index ''markPrice'' = None"
  by (simp add: array_index_def is_digit_def)

lemma parseFloat_zero: "parseFloat_str ''0'' = Num 0"
  by code_simp

lemma field_number_undefined:
  "get_prop v k = Inr JUndefined \<Longrightarrow> field_number v k = Num 0"
  by (simp add: field_number_def js_or_def parseFloat_zero)

lemma get_prop_openInterest_non_object:
  "\<forall>kvs. v \<noteq> JObj kvs \<Longrightarrow> get_prop v ''openInterest'' = Inr x \<Longrightarrow> x = JUndefined"
  by (cases v) (auto simp add: array_index_openInterest)

lemma get_prop_markPrice_non_object:
  "\<forall>kvs. v \<noteq> JObj kvs \<Longrightarrow> get_prop v ''markPrice'' = Inr x \<Longrightarrow> x = JUndefined"
  by (cases v) (auto simp add: array_index_markPrice)

lemma nonneg_payload_openInterest:
  assumes "nonneg_payload v" and "get_prop v ''openInterest'' = Inr x"
  shows "nonneg_finite (parseFloat (js_or x (JStr ''0'')))"
proof (cases "\<exists>kvs. v = JObj kvs")
  case True
  with assms show ?thesis
    by (auto simp add: nonneg_payload_def field_number_def)
next
  case False
  with assms(2) have "x = JUndefined"
    by (auto dest: get_prop_openInterest_non_object)
  then show ?thesis
    by (simp add: js_or_def parseFloat_zero nonneg_finite_def)
qed

lemma nonneg_payload_markPrice:
  assumes "nonneg_payload v" and "get_prop v ''markPrice'' = Inr x"
  shows "nonneg_finite (parseFloat (js_or x (JStr ''0'')))"
proof (cases "\<exists>kvs. v = JObj kvs")
  case True
  with assms show ?thesis
    by (auto simp add: nonneg_payload_def field_number_def)
next
  case False
  with assms(2) have "x = JUndefined"
    by (auto dest: get_prop_markPrice_non_object)
  then show ?thesis
    by (simp add: js_or_def parseFloat_zero nonneg_finite_def)
qed

lemma no_oi_payload_openInterest:
  assumes "no_oi_payload v" and "get_prop v ''openInterest'' = Inr x"
  shows "parseFloat (js_or x (JStr ''0'')) = Num 0"
proof -
  have "x = JUndefined"
  proof (cases "\<exists>kvs. v = JObj kvs")
    case True
    with assms show ?thesis
      by (auto simp add: no_oi_payload_def)
  next
    case False
    with assms(2) show ?thesis
      by (auto dest: get_prop_openInterest_non_object)
  qed
  then show ?thesis
    by (simp add: js_or_def parseFloat_zero)
qed

lemma nonneg_finite_ge: "nonneg_finite a \<Longrightarrow> js_ge a (Num 0)"
  by (cases a) (simp_all add: nonneg_finite_def)

lemma nonneg_finite_mul:
  assumes "nonneg_finite a" and "nonneg_finite b"
  shows "js_ge (js_mul a b) (Num 0)"
proof -
  from assms obtain x y where a: "a = Num x" "0 \<le> x" and b: "b = Num y" "0 \<le> y"
    by (cases a; cases b) (simp_all add: nonneg_finite_def)
  from a(2) b(2) have "0 \<le> x * y" by simp
  from to_double_nonneg [OF this] show ?thesis
    unfolding a(1) b(1) by auto
qed

lemma zero_mul_nonneg_finite: "nonneg_finite b \<Longrightarrow> js_mul (Num 0) b = Num 0"
  by (cases b) (simp_all add: nonneg_finite_def to_double_zero)

lemma nonneg_world_payload:
  "nonneg_world w \<Longrightarrow> http w req = Answered r \<Longrightarrow> ok r \<Longrightarrow> body r = Some d
     \<Longrightarrow> nonneg_payload d"
  by (cases r) (auto simp add: nonneg_world_def)

lemma no_oi_world_payload:
  "no_oi_world w \<Longrightarrow> http w req = Answered r \<Longrightarrow> ok r \<Longrightarrow> body r = Some d
     \<Longrightarrow> no_oi_payload d"
  by (cases r) (auto simp add: no_oi_world_def)

lemma nonneg_payload_empty: "nonneg_payload (JObj [])"
  by (simp add: nonneg_payload_def field_number_def js_or_def parseFloat_zero nonneg_finite_def)

lemma no_oi_payload_empty: "no_oi_payload (JObj [])"
  by (simp add: no_oi_payload_def)

lemma okx_open_interest:
  "produces_only (\<lambda>r. open_interest r = Num 0) (fetchOkxFunding w mkt)"
  unfolding fetchOkxFunding_def Let_def
  by (intro produces_only_intros) simp

lemma open_interest_product:
  assumes "nonneg_payload d" and "nonneg_payload oid"
    and "get_prop d ''markPrice'' = Inr mp" and "get_prop oid ''openInterest'' = Inr oi"
  shows "js_ge (js_mul (parseFloat (js_or oi (JStr ''0'')))
                       (parseFloat (js_or mp (JStr ''0'')))) (Num 0) \<and>
         (no_oi_payload oid \<longrightarrow>
            js_mul (parseFloat (js_or oi (JStr ''0''))) (parseFloat (js_or mp (JStr ''0''))) =
              Num 0)"
proof -
  have m: "nonneg_finite (parseFloat (js_or mp (JStr ''0'')))"
    using assms(1,3) by (rule nonneg_payload_markPrice)
  have o: "nonneg_finite (parseFloat (js_or oi (JStr ''0'')))"
    using assms(2,4) by (rule nonneg_payload_openInterest)
  from o m have "js_ge (js_mul (parseFloat (js_or oi (JStr ''0'')))
                               (parseFloat (js_or mp (JStr ''0'')))) (Num 0)"
    by (rule nonneg_finite_mul)
  moreover have "js_mul (parseFloat (js_or oi (JStr ''0''))) (parseFloat (js_or mp (JStr ''0''))) =
              Num 0" if "no_oi_payload oid"
    using no_oi_payload_openInterest [OF that assms(4)] m
    by (simp only: zero_mul_nonneg_finite)
  ultimately show ?thesis by blast
qed

lemma binance_open_interest:
  assumes "nonneg_world w"
  shows "produces_only (\<lambda>r. js_ge (open_interest r) (Num 0) \<and>
                             (no_oi_world w \<longrightarrow> open_interest r = Num 0))
           (fetchBinanceFunding w mkt)"
  unfolding fetchBinanceFunding_def Let_def
  apply (intro produces_only_result_intros)
  apply (simp add: snd_fetch snd_json snd_io_lift snd_io_return split: if_splits)
  subgoal premises p for response data oiResponse oiData lfr mp oi ip
  proof -
    from p have d: "nonneg_payload data"
      using nonneg_world_payload [OF assms, of _ response data] by blast
    from p have o: "nonneg_payload oiData"
      using nonneg_world_payload [OF assms, of _ oiResponse oiData] by blast
    from p have n: "no_oi_world w \<longrightarrow> no_oi_payload oiData"
      using no_oi_world_payload [of w _ oiResponse oiData] by blast
    from p n open_interest_product [OF d o, of mp oi] show ?thesis
      by blast
  qed
  subgoal premises p for response data oiResponse oiData lfr mp oi ip
  proof -
    from p have d: "nonneg_payload data"
      using nonneg_world_payload [OF assms, of _ response data] by blast
    from p have e: "oiData = JObj []" by simp
    from p open_interest_product [OF d nonneg_payload_empty, of mp oi] show ?thesis
      unfolding e using no_oi_payload_empty by blast
  qed
  done
lemma nonneg_payload_step:
  assumes "nonneg_payload v"
    and "get_prop v k = Inr x \<or> opt_get v k = Inr x \<or> get_index v i = Inr x"
  shows "nonneg_payload x"
  using assms unfolding nonneg_payload_def
  by (blast intro: every_object_get_prop every_object_opt_get every_object_get_index)

lemma no_oi_payload_step:
  assumes "no_oi_payload v"
    and "get_prop v k = Inr x \<or> opt_get v k = Inr x \<or> get_index v i = Inr x"
  shows "no_oi_payload x"
  using assms unfolding no_oi_payload_def
  by (blast intro: every_object_get_prop every_object_opt_get every_object_get_index)

lemma bybit_open_interest:
  assumes "nonneg_world w"
  shows "produces_only (\<lambda>r. js_ge (open_interest r) (Num 0) \<and>
                             (no_oi_world w \<longrightarrow> open_interest r = Num 0))
           (fetchBybitFunding w mkt)"
  unfolding fetchBybitFunding_def Let_def
  apply (intro produces_only_result_intros)
  apply (simp add: snd_fetch snd_json snd_io_lift snd_io_return split: if_splits)
  subgoal premises p for response data retCode result list_raw list_length ticker fr mp oi ip
  proof -
    from p have d: "nonneg_payload data"
      using nonneg_world_payload [OF assms, of _ response data] by blast
    from p have n: "no_oi_world w \<longrightarrow> no_oi_payload data"
      using no_oi_world_payload [of w _ response data] by blast
    from d p have "nonneg_payload result" by (blast intro: nonneg_payload_step)
    with p have "nonneg_payload list_raw" by (blast intro: nonneg_payload_step)
    with p have t: "nonneg_payload ticker" by (blast intro: nonneg_payload_step)
    have nt: "no_oi_payload ticker" if "no_oi_world w"
    proof -
      from that n have "no_oi_payload data" by simp
      with p have "no_oi_payload result" by (blast intro: no_oi_payload_step)
      with p have "no_oi_payload list_raw" by (blast intro: no_oi_payload_step)
      with p show ?thesis by (blast intro: no_oi_payload_step)
    qed
    from p nt open_interest_product [OF t t, of mp oi] show ?thesis
      by blast
  qed
  done

lemma hyperliquid_open_interest:
  assumes "nonneg_world w"
  shows "produces_only (\<lambda>r. js_ge (open_interest r) (Num 0) \<and>
                             (no_oi_world w \<longrightarrow> open_interest r = Num 0))
           (fetchHyperliquidFunding w mkt)"
  unfolding fetchHyperliquidFunding_def Let_def
  apply (intro produces_only_result_intros)
  apply (simp add: snd_fetch snd_json snd_io_lift snd_io_return split: if_splits)
  subgoal premises p for response data data0 universe assetIndex data1 assetCtx funding oi
      markPx oraclePx
  proof -
    from p have d: "nonneg_payload data"
      using nonneg_world_payload [OF assms, of _ response data] by blast
    from p have n: "no_oi_world w \<longrightarrow> no_oi_payload data"
      using no_oi_world_payload [of w _ response data] by blast
    from d p have "nonneg_payload data1" by (blast intro: nonneg_payload_step)
    with p have c: "nonneg_payload assetCtx" by (blast intro: nonneg_payload_step)
    have nc: "no_oi_payload assetCtx" if "no_oi_world w"
    proof -
      from that n have "no_oi_payload data" by simp
      with p have "no_oi_payload data1" by (blast intro: no_oi_payload_step)
      with p show ?thesis by (blast intro: no_oi_payload_step)
    qed
    from p have o: "get_prop assetCtx ''openInterest'' = Inr oi" by simp
    from nonneg_finite_ge [OF nonneg_payload_openInterest [OF c o]]
      no_oi_payload_openInterest [OF nc o]
    show ?thesis by blast
  qed
  done

lemma okx_open_interest_world:
  "produces_only (\<lambda>r. js_ge (open_interest r) (Num 0) \<and>
                      (no_oi_world w \<longrightarrow> open_interest r = Num 0))
     (fetchOkxFunding w mkt)"
  unfolding fetchOkxFunding_def Let_def
  by (intro produces_only_intros) simp

lemma nonneg_example_payloads:
  "nonneg_payload binance_premium_payload"
  "nonneg_payload binance_oi_payload"
  "nonneg_payload bybit_payload"
  "nonneg_payload okx_payload"
  "nonneg_payload hyperliquid_payload"
  by code_simp+

lemma nonneg_world_example: "nonneg_world example_world"
  unfolding nonneg_world_def example_world_def
  by (auto simp add: example_http_def nonneg_example_payloads split: if_splits)

text \<open>
  The bound 0 is all that holds of the product: with a count of 10 and a mark price of
  \<open>1e308\<close>, both non-negative and finite, the open interest of the Bybit record is
  \<open>+Infinity\<close>.
\<close>

lemma nonneg_overflow_payload: "nonneg_payload overflow_payload"
  by code_simp

lemma nonneg_world_overflow: "nonneg_world overflow_world"
  unfolding nonneg_world_def overflow_world_def example_world_def
  by (auto simp add: nonneg_overflow_payload split: if_splits)

lemma bybit_overflow_example:
  "(case snd (fetchBybitFunding overflow_world ''BTC/USDT:USDT'') of
      Inr (Some r) \<Rightarrow> open_interest r = PosInf
    | _ \<Rightarrow> False)"
  by code_simp

text \<open>
  C9 (as stated: open interest is at least 0 for every venue payload). The adapters pass
  on what the venue reports: with Hyperliquid reporting an open interest of \<open>-688.5\<close>
  the record carries \<open>-688.5\<close>.
\<close>

theorem negative_open_interest_counterexample:
  "fetchHyperliquidFunding negative_oi_world ''BTC/USDT:USDT'' =
     ([hyperliquid_request],
      Inr (Some (hyperliquid_example_record\<lparr>open_interest := Num (- (1377 / 2))\<rparr>))) \<and>
   \<not> js_ge (Num (- (1377 / 2))) (Num 0)"
proof -
  have "fetchHyperliquidFunding negative_oi_world ''BTC/USDT:USDT'' =
     ([hyperliquid_request],
      Inr (Some (hyperliquid_example_record\<lparr>open_interest := Num (- (1377 / 2))\<rparr>)))"
    by code_simp
  then show ?thesis by simp
qed

text \<open>
  C9 (amended). When every object the venues answer with reports a non-negative finite
  open interest and mark price (an absent field counting as 0), the open interest of
  every record an adapter produces is a number greater than or equal to 0: a finite one,
  or \<open>+Infinity\<close> where the product of the count and the mark price exceeds every double;
  it is never \<open>NaN\<close>. When in addition no object carries an \<open>openInterest\<close> field, it
  is 0. For OKX, whose adapter reads no open interest, it is 0 whatever the venue answers.
\<close>

theorem open_interest_nonneg_for_nonneg_venue_data:
  assumes "f \<in> set adapters"
    and "nonneg_world w"
    and "snd (f w mkt) = Inr (Some rec)"
  shows "js_ge (open_interest rec) (Num 0) \<and>
         (open_interest rec = PosInf \<or> (\<exists>x. open_interest rec = Num x \<and> 0 \<le> x)) \<and>
         (no_oi_world w \<longrightarrow> open_interest rec = Num 0) \<and>
         (\<forall>w' mkt' r. snd (fetchOkxFunding w' mkt') = Inr (Some r) \<longrightarrow> open_interest r = Num 0)"
proof -
  have "produces_only (\<lambda>r. js_ge (open_interest r) (Num 0) \<and>
                             (no_oi_world w \<longrightarrow> open_interest r = Num 0)) (f w mkt)"
    using assms(1)
  proof (cases rule: adapter_cases)
    case 1
    show ?thesis unfolding 1 using assms(2) by (rule binance_open_interest)
  next
    case 2
    show ?thesis unfolding 2 using assms(2) by (rule bybit_open_interest)
  next
    case 3
    show ?thesis unfolding 3 by (rule okx_open_interest_world)
  next
    case 4
    show ?thesis unfolding 4 using assms(2) by (rule hyperliquid_open_interest)
  qed
  with assms(3) have r: "js_ge (open_interest rec) (Num 0)"
    and z: "no_oi_world w \<longrightarrow> open_interest rec = Num 0"
    by (simp_all add: produces_only_def)
  from r have x: "open_interest rec = PosInf \<or> (\<exists>x. open_interest rec = Num x \<and> 0 \<le> x)"
    by (cases "open_interest rec") simp_all
  have okx: "\<forall>w' mkt' r. snd (fetchOkxFunding w' mkt') = Inr (Some r) \<longrightarrow>
               open_interest r = Num 0"
    using okx_open_interest by (simp add: produces_only_def)
  from r x z okx show ?thesis
    by - (intro conjI, assumption+)
qed

theorem open_interest_nonneg_for_nonneg_venue_data_witness:
  "fetchHyperliquidFunding \<in> set adapters \<and> nonneg_world example_world \<and>
   snd (fetchHyperliquidFunding example_world ''BTC/USDT:USDT'') =
     Inr (Some hyperliquid_example_record) \<and>
   open_interest hyperliquid_example_record = Num (1377 / 2) \<and>
   js_ge (open_interest hyperliquid_example_record) (Num 0)"
proof -
  have a: "fetchHyperliquidFunding \<in> set adapters"
    by (simp add: adapters_def)
  have b: "snd (fetchHyperliquidFunding example_world ''BTC/USDT:USDT'') =
             Inr (Some hyperliquid_example_record)"
    by (simp add: hyperliquid_example)
  have c: "open_interest hyperliquid_example_record = Num (1377 / 2)"
    by (simp add: hyperliquid_example_record_def)
  from open_interest_nonneg_for_nonneg_venue_data [OF a nonneg_world_example b]
  have "js_ge (open_interest hyperliquid_example_record) (Num 0)"
    by blast
  with a nonneg_world_example b c show ?thesis by simp
qed

end
